theory Spec2Isabelle
  imports Complex_Main
begin

section \<open>Host objects touched by the view operators\<close>

text \<open>
  The module \<^verbatim>\<open>pdt_view.py\<close> is a set of eight operator classes over the host's
  viewport objects. Host objects are modelled as records of the attributes the module
  reads and writes. Python floats are modelled as reals, and a decimal literal denotes
  the decimal it is written as (so \<^verbatim>\<open>-0.0\<close> is \<open>0\<close>). Commands handed to the host
  (\<^verbatim>\<open>view.update()\<close>, \<^verbatim>\<open>tag_redraw()\<close>, \<^verbatim>\<open>bpy.ops.view3d.view_orbit\<close>,
  \<^verbatim>\<open>view_roll\<close>) and the lines given to the \<^verbatim>\<open>debug\<close> helper are recorded, in the
  order they are issued, in the list \<open>events\<close> of the world state.
\<close>

type_synonym vec3 = "real \<times> real \<times> real"
type_synonym quaternion = "real \<times> real \<times> real \<times> real"
type_synonym row4 = "real \<times> real \<times> real \<times> real"
type_synonym matrix4 = "row4 \<times> row4 \<times> row4 \<times> row4"

record RegionView3D =
  view_rotation :: quaternion
  view_distance :: real
  view_location :: vec3
  view_matrix :: matrix4
  is_orthographic_side_view :: bool

text \<open>\<^verbatim>\<open>region_3d\<close> may be \<^verbatim>\<open>None\<close>: the reset operator tests for it.\<close>

record Space =
  region_3d :: "RegionView3D option"

text \<open>
  \<^verbatim>\<open>area.type\<close> is the field \<open>atype\<close>. \<^verbatim>\<open>area.spaces.active\<close> is the first
  element of \<^verbatim>\<open>area.spaces\<close> (the host keeps the displayed space first), and
  \<^verbatim>\<open>None\<close> when there is none.
\<close>

record Area =
  atype :: string
  spaces :: "Space list"

text \<open>\<^verbatim>\<open>context.scene.pdt_pg\<close>: the scene settings the operators read.\<close>

record PDTSceneSettings =
  rotation_coords :: vec3
  vrotangle :: real

datatype error = IndexError | AttributeError | RuntimeError

datatype dbg_value = DBool bool | DReal real | DVec vec3 | DMat matrix4

text \<open>
  A line given to \<^verbatim>\<open>debug\<close> is its literal prefix and the value formatted into it.
\<close>

datatype event =
    Debug string dbg_value
  | Tag_redraw
  | Region_update
  | View_orbit real string
  | View_roll real string

text \<open>
  The only function this module registers as a timer is the closure \<^verbatim>\<open>set_false\<close> of
  \<^verbatim>\<open>highlight\<close>, which captures \<^verbatim>\<open>ui_group\<close> (and \<^verbatim>\<open>redraw\<close>, always
  \<^verbatim>\<open>context.area.tag_redraw\<close>).
\<close>

datatype callback = Set_false int

record timer =
  timer_fn :: callback
  timer_due :: real

text \<open>
  Modelled from the spec: \<^verbatim>\<open>PDT_PT_PanelViewControl._ui_groups\<close> is declared in
  \<^verbatim>\<open>pdt_menus\<close>, which is not among the sources; it is the list of per-UI-group
  highlight flags, a Python list of booleans indexed by \<^verbatim>\<open>ui_group\<close>.
\<close>

text \<open>
  Modelled from the spec: the mutators of a viewport belong to the host (spec section 6).
  The view matrix of a viewport is not a value of its own: the host keeps rotation,
  location and distance. Assigning \<^verbatim>\<open>view_matrix\<close> makes the host take a rotation and a
  location (the latter also from the distance the view has) out of the matrix, and
  \<^verbatim>\<open>update()\<close> makes it recalculate the matrix from rotation, location and distance.
  The three conversions are the host's and are taken as given functions.
\<close>

record host_view =
  matrix_rotation :: "matrix4 \<Rightarrow> quaternion"
  matrix_location :: "matrix4 \<Rightarrow> real \<Rightarrow> vec3"
  compose_matrix :: "quaternion \<Rightarrow> vec3 \<Rightarrow> real \<Rightarrow> matrix4"

text \<open>
  Modelled from the spec: "any failure from host API misuse would propagate as an
  uncaught host-level exception". The host's commands \<^verbatim>\<open>view_orbit\<close> and
  \<^verbatim>\<open>view_roll\<close> poll the context they are called in and raise \<^verbatim>\<open>RuntimeError\<close> when
  it is not that of a 3D view, whatever areas the screen has; \<open>view3d_context\<close> says
  whether the operator is running in such a context.
\<close>

record world =
  screen_areas :: "Area list"
  pdt_pg :: PDTSceneSettings
  ui_groups :: "bool list"
  timers :: "timer list"
  clock :: real
  events :: "event list"
  view3d_context :: bool
  view_host :: host_view

section \<open>Python list indexing\<close>

definition py_index :: "nat \<Rightarrow> int \<Rightarrow> error + nat" where
  \<comment> \<open>the position a list of length \<open>n\<close> is accessed at by the index \<open>i\<close>\<close>
  "py_index n i =
     (if 0 \<le> i \<and> i < int n then Inr (nat i)
      else if - int n \<le> i \<and> i < 0 then Inr (nat (int n + i))
      else Inl IndexError)"

definition py_setitem :: "'a list \<Rightarrow> int \<Rightarrow> 'a \<Rightarrow> error + 'a list" where
  "py_setitem xs i v =
     (case py_index (length xs) i of Inl e \<Rightarrow> Inl e | Inr k \<Rightarrow> Inr (xs[k := v]))"

section \<open>The tooltip highlight\<close>

definition redraw :: "world \<Rightarrow> world" where
  "redraw w = w\<lparr>events := events w @ [Tag_redraw]\<rparr>"

definition set_false :: "int \<Rightarrow> world \<Rightarrow> (error + unit) \<times> world" where
  "set_false ui_group w =
     (case py_setitem (ui_groups w) ui_group False of
        Inl e \<Rightarrow> (Inl e, w)
      | Inr gs \<Rightarrow> (Inr (), redraw (w\<lparr>ui_groups := gs\<rparr>)))"

text \<open>
  Modelled from the spec: the host's timer facility \<^verbatim>\<open>bpy.app.timers\<close>. A registered
  function is called once \<^verbatim>\<open>first_interval\<close> seconds have elapsed; one that returns
  \<^verbatim>\<open>None\<close>, as \<^verbatim>\<open>set_false\<close> does, is not called again. \<open>advance t\<close> is the host
  letting time pass until \<open>t\<close>: the functions due by then are taken off the pending list
  and called in the order they were registered.
\<close>

definition timers_register :: "callback \<Rightarrow> real \<Rightarrow> world \<Rightarrow> world" where
  "timers_register f first_interval w =
     w\<lparr>timers := timers w @ [\<lparr>timer_fn = f, timer_due = clock w + first_interval\<rparr>]\<rparr>"

fun run_callback :: "callback \<Rightarrow> world \<Rightarrow> world" where
  "run_callback (Set_false ui_group) w = snd (set_false ui_group w)"

definition advance :: "real \<Rightarrow> world \<Rightarrow> world" where
  "advance t w =
     (let due = filter (\<lambda>tm. timer_due tm \<le> t) (timers w);
          pending = filter (\<lambda>tm. \<not> timer_due tm \<le> t) (timers w);
          w = w\<lparr>timers := pending, clock := max (clock w) t\<rparr>
      in fold (\<lambda>tm. run_callback (timer_fn tm)) due w)"

definition highlight :: "int \<Rightarrow> world \<Rightarrow> (error + unit) \<times> world" where
  "highlight ui_group w =
     (case py_setitem (ui_groups w) ui_group True of
        Inl e \<Rightarrow> (Inl e, w)
      | Inr gs \<Rightarrow>
          (Inr (), timers_register (Set_false ui_group) 2.0 (redraw (w\<lparr>ui_groups := gs\<rparr>))))"

text \<open>
  \<open>pending_clear w k\<close>: a registered function that has not been called yet will set
  the flag at position \<open>k\<close> of the list to false.
\<close>

fun callback_ui_group :: "callback \<Rightarrow> int" where
  "callback_ui_group (Set_false ui_group) = ui_group"

definition pending_clear :: "world \<Rightarrow> nat \<Rightarrow> bool" where
  "pending_clear w k =
     list_ex (\<lambda>tm. py_index (length (ui_groups w)) (callback_ui_group (timer_fn tm)) = Inr k)
       (timers w)"

text \<open>
  \<open>firing t w\<close>: the pending functions that \<open>advance t\<close> calls and that do not
  raise.
\<close>

definition firing :: "real \<Rightarrow> world \<Rightarrow> timer list" where
  "firing t w =
     filter (\<lambda>tm. timer_due tm \<le> t \<and>
                  py_index (length (ui_groups w)) (callback_ui_group (timer_fn tm)) \<noteq> Inl IndexError)
       (timers w)"

section \<open>The operator classes\<close>

datatype operator =
    PDT_OT_ViewRot
  | PDT_OT_vRotL
  | PDT_OT_vRotR
  | PDT_OT_vRotU
  | PDT_OT_vRotD
  | PDT_OT_vRoll
  | PDT_OT_viso
  | PDT_OT_Reset3DView

fun bl_idname :: "operator \<Rightarrow> string" where
  "bl_idname PDT_OT_ViewRot = ''pdt.viewrot''"
| "bl_idname PDT_OT_vRotL = ''pdt.viewleft''"
| "bl_idname PDT_OT_vRotR = ''pdt.viewright''"
| "bl_idname PDT_OT_vRotU = ''pdt.viewup''"
| "bl_idname PDT_OT_vRotD = ''pdt.viewdown''"
| "bl_idname PDT_OT_vRoll = ''pdt.viewroll''"
| "bl_idname PDT_OT_viso = ''pdt.viewiso''"
| "bl_idname PDT_OT_Reset3DView = ''pdt.reset_3d_view''"

text \<open>
  \<^verbatim>\<open>bl_description\<close> is set by six classes; the other two carry a docstring only.
\<close>

fun bl_description :: "operator \<Rightarrow> string option" where
  "bl_description PDT_OT_ViewRot = Some ''View Rotation by Absolute Values''"
| "bl_description PDT_OT_vRotL = Some ''View Orbit Left by Delta Value''"
| "bl_description PDT_OT_vRotR = Some ''View Orbit Right by Delta Value''"
| "bl_description PDT_OT_vRotU = Some ''View Orbit Up by Delta Value''"
| "bl_description PDT_OT_vRotD = Some ''View Orbit Down by Delta Value''"
| "bl_description PDT_OT_vRoll = Some ''View Roll by Delta Value''"
| "bl_description PDT_OT_viso = None"
| "bl_description PDT_OT_Reset3DView = None"

record IntProperty =
  prop_default :: int
  prop_options :: "string set"

text \<open>The \<^verbatim>\<open>ui_group\<close> annotation of each class, \<open>None\<close> where the class has none.\<close>

fun ui_group_property :: "operator \<Rightarrow> IntProperty option" where
  "ui_group_property PDT_OT_ViewRot =
     Some \<lparr>prop_default = -1, prop_options = {''HIDDEN'', ''SKIP_SAVE''}\<rparr>"
| "ui_group_property PDT_OT_vRotL =
     Some \<lparr>prop_default = -1, prop_options = {''HIDDEN'', ''SKIP_SAVE''}\<rparr>"
| "ui_group_property PDT_OT_vRotR =
     Some \<lparr>prop_default = -1, prop_options = {''HIDDEN'', ''SKIP_SAVE''}\<rparr>"
| "ui_group_property PDT_OT_vRotU =
     Some \<lparr>prop_default = -1, prop_options = {''HIDDEN'', ''SKIP_SAVE''}\<rparr>"
| "ui_group_property PDT_OT_vRotD =
     Some \<lparr>prop_default = -1, prop_options = {''HIDDEN'', ''SKIP_SAVE''}\<rparr>"
| "ui_group_property PDT_OT_vRoll =
     Some \<lparr>prop_default = -1, prop_options = {''HIDDEN'', ''SKIP_SAVE''}\<rparr>"
| "ui_group_property PDT_OT_viso = None"
| "ui_group_property PDT_OT_Reset3DView = None"

text \<open>
  The \<^verbatim>\<open>description\<close> class method, written once in each of the six classes that
  have one, with the same body. \<open>self_ui_group\<close> is \<^verbatim>\<open>self.ui_group\<close>. The result is
  \<open>None\<close> for a class that defines no such method.
\<close>

definition description_body ::
  "string \<Rightarrow> int \<Rightarrow> world \<Rightarrow> (error + string) \<times> world" where
  "description_body cls_bl_description self_ui_group w =
     (if self_ui_group \<noteq> -1 then
        (case highlight self_ui_group w of
           (Inl e, w') \<Rightarrow> (Inl e, w')
         | (Inr _, w') \<Rightarrow> (Inr cls_bl_description, w'))
      else (Inr cls_bl_description, w))"

fun description ::
  "operator \<Rightarrow> int \<Rightarrow> world \<Rightarrow> ((error + string) \<times> world) option" where
  "description PDT_OT_ViewRot g w =
     Some (description_body ''View Rotation by Absolute Values'' g w)"
| "description PDT_OT_vRotL g w =
     Some (description_body ''View Orbit Left by Delta Value'' g w)"
| "description PDT_OT_vRotR g w =
     Some (description_body ''View Orbit Right by Delta Value'' g w)"
| "description PDT_OT_vRotU g w =
     Some (description_body ''View Orbit Up by Delta Value'' g w)"
| "description PDT_OT_vRotD g w =
     Some (description_body ''View Orbit Down by Delta Value'' g w)"
| "description PDT_OT_vRoll g w =
     Some (description_body ''View Roll by Delta Value'' g w)"
| "description PDT_OT_viso g w = None"
| "description PDT_OT_Reset3DView g w = None"

section \<open>The execute methods\<close>

definition FINISHED :: "string set" where
  "FINISHED = {''FINISHED''}"

definition view3d_areas :: "Area list \<Rightarrow> Area list" where
  \<comment> \<open>\<^verbatim>\<open>[a for a in context.screen.areas if a.type == "VIEW_3D"]\<close>\<close>
  "view3d_areas as = filter (\<lambda>a. atype a = ''VIEW_3D'') as"

text \<open>
  \<^verbatim>\<open>areas[0]\<close> is the first area of the screen whose type is \<^verbatim>\<open>VIEW_3D\<close>;
  assigning through it changes that area of the screen. \<open>on_first_view3d f\<close> applies
  \<open>f\<close> to it where it stands.
\<close>

fun on_first_view3d :: "(Area \<Rightarrow> error + Area) \<Rightarrow> Area list \<Rightarrow> error + Area list" where
  "on_first_view3d f [] = Inr []"
| "on_first_view3d f (a # as) =
     (if atype a = ''VIEW_3D'' then
        (case f a of Inl e \<Rightarrow> Inl e | Inr a' \<Rightarrow> Inr (a' # as))
      else
        (case on_first_view3d f as of Inl e \<Rightarrow> Inl e | Inr as' \<Rightarrow> Inr (a # as')))"

definition assign_view_rotation :: "quaternion \<Rightarrow> Area \<Rightarrow> error + Area" where
  \<comment> \<open>\<^verbatim>\<open>area.spaces.active.region_3d.view_rotation = q\<close>\<close>
  "assign_view_rotation q area =
     (case spaces area of
        [] \<Rightarrow> Inl AttributeError
      | sp # sps \<Rightarrow>
          (case region_3d sp of
             None \<Rightarrow> Inl AttributeError
           | Some view \<Rightarrow>
               Inr (area\<lparr>spaces := sp\<lparr>region_3d := Some (view\<lparr>view_rotation := q\<rparr>)\<rparr> # sps\<rparr>)))"

text \<open>
  \<^verbatim>\<open>euler_to_quaternion\<close> comes from \<^verbatim>\<open>pdt_functions\<close>, which is not among the
  sources: it is the parameter \<open>euler_to_quaternion\<close> of the model.
\<close>

definition execute_ViewRot ::
  "(real \<Rightarrow> real \<Rightarrow> real \<Rightarrow> quaternion) \<Rightarrow> world \<Rightarrow> (error + string set) \<times> world" where
  "execute_ViewRot euler_to_quaternion w =
     (let pg = pdt_pg w;
          areas = view3d_areas (screen_areas w)
      in if length areas > 0 then
           (let roll_value = euler_to_quaternion
                  (fst (rotation_coords pg) * pi / 180)
                  (fst (snd (rotation_coords pg)) * pi / 180)
                  (snd (snd (rotation_coords pg)) * pi / 180)
            in case on_first_view3d (assign_view_rotation roll_value) (screen_areas w) of
                 Inl e \<Rightarrow> (Inl e, w)
               | Inr as' \<Rightarrow> (Inr FINISHED, w\<lparr>screen_areas := as'\<rparr>))
         else (Inr FINISHED, w))"

text \<open>
  Modelled from the spec: a command of \<^verbatim>\<open>bpy.ops.view3d\<close>. It is handed to the host,
  which raises when its poll of the calling context fails.
\<close>

definition host_call :: "event \<Rightarrow> world \<Rightarrow> (error + unit) \<times> world" where
  "host_call c w =
     (if view3d_context w then Inr () else Inl RuntimeError, w\<lparr>events := events w @ [c]\<rparr>)"

definition execute_vRotL :: "world \<Rightarrow> (error + string set) \<times> world" where
  "execute_vRotL w =
     (let pg = pdt_pg w;
          areas = view3d_areas (screen_areas w)
      in if length areas > 0 then
           (case host_call (View_orbit (vrotangle pg * pi / 180) ''ORBITLEFT'') w of
              (Inl e, w') \<Rightarrow> (Inl e, w')
            | (Inr _, w') \<Rightarrow> (Inr FINISHED, w'))
         else (Inr FINISHED, w))"

definition execute_vRotR :: "world \<Rightarrow> (error + string set) \<times> world" where
  "execute_vRotR w =
     (let pg = pdt_pg w;
          areas = view3d_areas (screen_areas w)
      in if length areas > 0 then
           (case host_call (View_orbit (vrotangle pg * pi / 180) ''ORBITRIGHT'') w of
              (Inl e, w') \<Rightarrow> (Inl e, w')
            | (Inr _, w') \<Rightarrow> (Inr FINISHED, w'))
         else (Inr FINISHED, w))"

definition execute_vRotU :: "world \<Rightarrow> (error + string set) \<times> world" where
  "execute_vRotU w =
     (let pg = pdt_pg w;
          areas = view3d_areas (screen_areas w)
      in if length areas > 0 then
           (case host_call (View_orbit (vrotangle pg * pi / 180) ''ORBITUP'') w of
              (Inl e, w') \<Rightarrow> (Inl e, w')
            | (Inr _, w') \<Rightarrow> (Inr FINISHED, w'))
         else (Inr FINISHED, w))"

definition execute_vRotD :: "world \<Rightarrow> (error + string set) \<times> world" where
  "execute_vRotD w =
     (let pg = pdt_pg w;
          areas = view3d_areas (screen_areas w)
      in if length areas > 0 then
           (case host_call (View_orbit (vrotangle pg * pi / 180) ''ORBITDOWN'') w of
              (Inl e, w') \<Rightarrow> (Inl e, w')
            | (Inr _, w') \<Rightarrow> (Inr FINISHED, w'))
         else (Inr FINISHED, w))"

definition execute_vRoll :: "world \<Rightarrow> (error + string set) \<times> world" where
  "execute_vRoll w =
     (let pg = pdt_pg w;
          areas = view3d_areas (screen_areas w)
      in if length areas > 0 then
           (case host_call (View_roll (vrotangle pg * pi / 180) ''ANGLE'') w of
              (Inl e, w') \<Rightarrow> (Inl e, w')
            | (Inr _, w') \<Rightarrow> (Inr FINISHED, w'))
         else (Inr FINISHED, w))"

definition execute_viso :: "world \<Rightarrow> (error + string set) \<times> world" where
  "execute_viso w =
     (let areas = view3d_areas (screen_areas w)
      in if length areas > 0 then
           (case on_first_view3d (assign_view_rotation (0.8205, 0.4247, -0.1759, -0.3399))
                   (screen_areas w) of
              Inl e \<Rightarrow> (Inl e, w)
            | Inr as' \<Rightarrow> (Inr FINISHED, w\<lparr>screen_areas := as'\<rparr>))
         else (Inr FINISHED, w))"

subsection \<open>Reset to the default view\<close>

definition default_view_distance :: real where
  "default_view_distance = 17.986562728881836"

definition default_view_matrix :: matrix4 where
  "default_view_matrix =
     ((0.41, -0.4017, 0.8188, 0.0),
      (0.912, 0.1936, -0.3617, 0.0),
      (-0.0133, 0.8950, 0.4458, 0.0),
      (0.0, 0.0, -17.9866, 1.0))"

text \<open>
  Modelled from the spec: \<^verbatim>\<open>view.view_matrix = m\<close> and \<^verbatim>\<open>view.update()\<close>, as the
  host carries them out with the conversions of \<open>host_view\<close>. Neither touches the
  distance or \<^verbatim>\<open>is_orthographic_side_view\<close>.
\<close>

definition assign_view_matrix :: "host_view \<Rightarrow> matrix4 \<Rightarrow> RegionView3D \<Rightarrow> RegionView3D" where
  "assign_view_matrix h m view =
     view\<lparr>view_rotation := matrix_rotation h m,
          view_location := matrix_location h m (view_distance view)\<rparr>"

definition region_update :: "host_view \<Rightarrow> RegionView3D \<Rightarrow> RegionView3D" where
  "region_update h view =
     view\<lparr>view_matrix :=
            compose_matrix h (view_rotation view) (view_location view) (view_distance view)\<rparr>"

text \<open>The body of the loop once \<^verbatim>\<open>view\<close> is known not to be \<^verbatim>\<open>None\<close>.\<close>

definition reset_view ::
  "host_view \<Rightarrow> RegionView3D \<Rightarrow> event list \<Rightarrow> RegionView3D \<times> event list" where
  "reset_view h view ev =
     (let ev = ev @ [Debug ''is_orthographic_side_view: ''
                       (DBool (is_orthographic_side_view view))]
      in if is_orthographic_side_view view then
           (let ev = ev @ [Debug ''view_distance before reset: '' (DReal (view_distance view))];
                ev = ev @ [Debug ''view_location before reset: '' (DVec (view_location view))];
                view = view\<lparr>view_distance := default_view_distance\<rparr>;
                view = view\<lparr>view_location := (-0.0, -0.0, -0.0)\<rparr>;
                view = region_update h view;
                ev = ev @ [Region_update];
                ev = ev @ [Debug ''view_distance AFTER reset: '' (DReal (view_distance view))];
                ev = ev @ [Debug ''view_location AFTER reset: '' (DVec (view_location view))]
            in (view, ev))
         else
           (let ev = ev @ [Debug (''view_matrix before reset:'' @ [CHR 0x0A]) (DMat (view_matrix view))];
                view = assign_view_matrix h default_view_matrix view;
                view = region_update h view;
                ev = ev @ [Region_update];
                ev = ev @ [Debug (''view_matrix AFTER reset:'' @ [CHR 0x0A]) (DMat (view_matrix view))]
            in (view, ev)))"

definition reset_area ::
  "host_view \<Rightarrow> Area \<Rightarrow> event list \<Rightarrow> (error + unit) \<times> Area \<times> event list" where
  \<comment> \<open>\<^verbatim>\<open>view = area.spaces[0].region_3d\<close>, then the guarded body\<close>
  "reset_area h area ev =
     (case spaces area of
        [] \<Rightarrow> (Inl IndexError, area, ev)
      | sp # sps \<Rightarrow>
          (case region_3d sp of
             None \<Rightarrow> (Inr (), area, ev)
           | Some view \<Rightarrow>
               (case reset_view h view ev of
                  (view', ev') \<Rightarrow>
                    (Inr (), area\<lparr>spaces := sp\<lparr>region_3d := Some view'\<rparr> # sps\<rparr>, ev'))))"

text \<open>
  The \<^verbatim>\<open>for\<close> loop over the areas of type \<^verbatim>\<open>VIEW_3D\<close>: each is changed where it
  stands in the screen's list, and an exception ends the loop with the changes made
  so far.
\<close>

fun reset_loop ::
  "host_view \<Rightarrow> Area list \<Rightarrow> event list \<Rightarrow> (error + unit) \<times> Area list \<times> event list" where
  "reset_loop h [] ev = (Inr (), [], ev)"
| "reset_loop h (a # as) ev =
     (if atype a = ''VIEW_3D'' then
        (case reset_area h a ev of
           (Inl e, a', ev') \<Rightarrow> (Inl e, a' # as, ev')
         | (Inr _, a', ev') \<Rightarrow>
             (case reset_loop h as ev' of (r, as', ev'') \<Rightarrow> (r, a' # as', ev'')))
      else
        (case reset_loop h as ev of (r, as', ev') \<Rightarrow> (r, a # as', ev')))"

definition execute_Reset3DView :: "world \<Rightarrow> (error + string set) \<times> world" where
  "execute_Reset3DView w =
     (case reset_loop (view_host w) (screen_areas w) (events w) of
        (Inl e, as', ev') \<Rightarrow> (Inl e, w\<lparr>screen_areas := as', events := ev'\<rparr>)
      | (Inr _, as', ev') \<Rightarrow> (Inr FINISHED, w\<lparr>screen_areas := as', events := ev'\<rparr>))"

fun execute ::
  "(real \<Rightarrow> real \<Rightarrow> real \<Rightarrow> quaternion) \<Rightarrow> operator \<Rightarrow> world \<Rightarrow> (error + string set) \<times> world" where
  "execute e2q PDT_OT_ViewRot w = execute_ViewRot e2q w"
| "execute e2q PDT_OT_vRotL w = execute_vRotL w"
| "execute e2q PDT_OT_vRotR w = execute_vRotR w"
| "execute e2q PDT_OT_vRotU w = execute_vRotU w"
| "execute e2q PDT_OT_vRotD w = execute_vRotD w"
| "execute e2q PDT_OT_vRoll w = execute_vRoll w"
| "execute e2q PDT_OT_viso w = execute_viso w"
| "execute e2q PDT_OT_Reset3DView w = execute_Reset3DView w"

section \<open>When an execute method returns\<close>

text \<open>
  The operators dereference \<^verbatim>\<open>spaces.active.region_3d\<close> and \<^verbatim>\<open>spaces[0]\<close> of a
  \<^verbatim>\<open>VIEW_3D\<close> area without a check, and call host commands that poll the context.
  \<open>returns op w\<close> is what the state must offer for \<open>op\<close> not to raise: region data
  in the first space of the first \<^verbatim>\<open>VIEW_3D\<close> area for the two operators that assign a
  rotation, a 3D view context for the orbit and roll operators when the screen has a
  \<^verbatim>\<open>VIEW_3D\<close> area, and a space in every \<^verbatim>\<open>VIEW_3D\<close> area for the reset.
\<close>

definition viewport_ok :: "Area \<Rightarrow> bool" where
  "viewport_ok a = (case spaces a of [] \<Rightarrow> False | sp # _ \<Rightarrow> region_3d sp \<noteq> None)"

definition first_viewport_ok :: "world \<Rightarrow> bool" where
  "first_viewport_ok w =
     (case view3d_areas (screen_areas w) of [] \<Rightarrow> True | a # _ \<Rightarrow> viewport_ok a)"

definition command_ok :: "world \<Rightarrow> bool" where
  "command_ok w = (view3d_areas (screen_areas w) = [] \<or> view3d_context w)"

fun returns :: "operator \<Rightarrow> world \<Rightarrow> bool" where
  "returns PDT_OT_ViewRot w = first_viewport_ok w"
| "returns PDT_OT_vRotL w = command_ok w"
| "returns PDT_OT_vRotR w = command_ok w"
| "returns PDT_OT_vRotU w = command_ok w"
| "returns PDT_OT_vRotD w = command_ok w"
| "returns PDT_OT_vRoll w = command_ok w"
| "returns PDT_OT_viso w = first_viewport_ok w"
| "returns PDT_OT_Reset3DView w =
     list_all (\<lambda>a. atype a = ''VIEW_3D'' \<longrightarrow> spaces a \<noteq> []) (screen_areas w)"

text \<open>
  The views the loop of the reset operator comes to, in its order: the region data of
  the first space of each \<^verbatim>\<open>VIEW_3D\<close> area, as far as the loop gets.
\<close>

fun visited_views :: "Area list \<Rightarrow> RegionView3D list" where
  "visited_views [] = []"
| "visited_views (a # as) =
     (if atype a = ''VIEW_3D'' then
        (case spaces a of
           [] \<Rightarrow> []
         | sp # _ \<Rightarrow>
             (case region_3d sp of
                None \<Rightarrow> visited_views as
              | Some view \<Rightarrow> view # visited_views as))
      else visited_views as)"

section \<open>What happens between a request and the firing\<close>

text \<open>
  Modelled from the spec: on the host's single thread, time passes (\<open>Wait t\<close>: the host
  lets time pass until \<open>t\<close>) and tooltips are requested (\<open>Request op g\<close>: the
  description of \<open>op\<close> with \<^verbatim>\<open>ui_group\<close> \<open>g\<close>; an exception leaves the state as
  it was), in any order.
\<close>

datatype action = Wait real | Request operator int

fun step :: "action \<Rightarrow> world \<Rightarrow> world" where
  "step (Wait t) w = advance t w"
| "step (Request op g) w = (case description op g w of None \<Rightarrow> w | Some (_, w') \<Rightarrow> w')"

definition run :: "action list \<Rightarrow> world \<Rightarrow> world" where
  "run acts w = fold step acts w"

fun waits_before :: "real \<Rightarrow> action list \<Rightarrow> bool" where
  "waits_before T [] = True"
| "waits_before T (Wait t # acts) = (t < T \<and> waits_before T acts)"
| "waits_before T (Request op g # acts) = waits_before T acts"

section \<open>Sample states\<close>

definition sample_view :: RegionView3D where
  "sample_view =
     \<lparr>view_rotation = (1, 0, 0, 0), view_distance = 5, view_location = (1, 2, 3),
      view_matrix = ((1, 0, 0, 0), (0, 1, 0, 0), (0, 0, 1, 0), (-1, -2, -8, 1)),
      is_orthographic_side_view = False\<rparr>"

definition properties_area :: Area where
  "properties_area = \<lparr>atype = ''PROPERTIES'', spaces = [\<lparr>region_3d = None\<rparr>]\<rparr>"

definition sample_area :: Area where
  "sample_area = \<lparr>atype = ''VIEW_3D'', spaces = [\<lparr>region_3d = Some sample_view\<rparr>]\<rparr>"

text \<open>
  A stand-in for the host's conversions, for use at concrete inputs only: views that
  look along the third axis from \<open>distance\<close> away of \<open>location\<close>, never turned.
\<close>

definition sample_host :: host_view where
  "sample_host =
     \<lparr>matrix_rotation = (\<lambda>m. (1, 0, 0, 0)),
      matrix_location = (\<lambda>m d. case snd (snd (snd m)) of (x, y, z, u) \<Rightarrow> (- x, - y, - z - d)),
      compose_matrix = (\<lambda>q l d. case l of (x, y, z) \<Rightarrow>
         ((1, 0, 0, 0), (0, 1, 0, 0), (0, 0, 1, 0), (- x, - y, - z - d, 1)))\<rparr>"

definition sample_world :: world where
  "sample_world =
     \<lparr>screen_areas = [properties_area, sample_area],
      pdt_pg = \<lparr>rotation_coords = (90, 0, 45), vrotangle = 10\<rparr>,
      ui_groups = [False, False], timers = [], clock = 0, events = [],
      view3d_context = True, view_host = sample_host\<rparr>"

text \<open>The operator is called from outside a 3D view, with a 3D view on the screen.\<close>

definition outside_world :: world where
  "outside_world = sample_world\<lparr>view3d_context := False\<rparr>"

definition bare_world :: world where
  "bare_world = sample_world\<lparr>screen_areas := [properties_area]\<rparr>"

text \<open>A stand-in for the conversion function, for use at concrete inputs only.\<close>

definition sample_e2q :: "real \<Rightarrow> real \<Rightarrow> real \<Rightarrow> quaternion" where
  "sample_e2q x y z = (1, x, y, z)"



text \<open>
  The state two and a half seconds after a tooltip of UI group 0 was requested, when
  another one of the same group was requested one second after the first.
\<close>

definition rehover_world :: world where
  "rehover_world =
     advance (5 / 2) (snd (the (description PDT_OT_vRotR 0
       (advance 1 (snd (the (description PDT_OT_vRotL 0 sample_world)))))))"

section \<open>Properties of the operators\<close>

subsection \<open>The \<^verbatim>\<open>ui_group\<close> parameter\<close>

text \<open>
  C2 (as stated): every one of the eight operators takes an optional \<^verbatim>\<open>ui_group\<close>
  integer parameter with default \<open>-1\<close>, hidden and not saved. The classes
  \<^verbatim>\<open>PDT_OT_viso\<close> and \<^verbatim>\<open>PDT_OT_Reset3DView\<close> declare no such parameter.
\<close>

theorem ui_group_absent:
  "ui_group_property PDT_OT_viso = None \<and> ui_group_property PDT_OT_Reset3DView = None"
  by simp

text \<open>
  C2 (amended): the six operators \<^verbatim>\<open>pdt.viewrot\<close>, \<^verbatim>\<open>pdt.viewleft\<close>,
  \<^verbatim>\<open>pdt.viewright\<close>, \<^verbatim>\<open>pdt.viewup\<close>, \<^verbatim>\<open>pdt.viewdown\<close> and
  \<^verbatim>\<open>pdt.viewroll\<close> take an optional \<^verbatim>\<open>ui_group\<close> integer parameter with
  default \<open>-1\<close> and the options \<^verbatim>\<open>HIDDEN\<close> and \<^verbatim>\<open>SKIP_SAVE\<close>;
  \<^verbatim>\<open>pdt.viewiso\<close> and \<^verbatim>\<open>pdt.reset_3d_view\<close> take none.
\<close>

theorem ui_group_declared:
  "ui_group_property op =
     (if bl_idname op = ''pdt.viewiso'' \<or> bl_idname op = ''pdt.reset_3d_view'' then None
      else Some \<lparr>prop_default = -1, prop_options = {''HIDDEN'', ''SKIP_SAVE''}\<rparr>)"
  by (cases op) simp_all

subsection \<open>Status and the missing viewport\<close>

lemma reset_loop_no_view3d:
  "view3d_areas as = [] \<Longrightarrow> reset_loop h as ev = (Inr (), as, ev)"
  by (induction as) (auto simp: view3d_areas_def split: if_splits)

lemma assign_view_rotation_returns:
  "(\<exists>a'. assign_view_rotation q a = Inr a') = viewport_ok a"
  by (auto simp: viewport_ok_def assign_view_rotation_def split: list.splits option.splits)

lemma on_first_view3d_returns:
  "(\<exists>as'. on_first_view3d (assign_view_rotation q) as = Inr as') =
     (case view3d_areas as of [] \<Rightarrow> True | a # _ \<Rightarrow> viewport_ok a)"
proof (induction as)
  case Nil
  show ?case by (simp add: view3d_areas_def)
next
  case (Cons a as)
  show ?case
  proof (cases "atype a = ''VIEW_3D''")
    case True
    have "(\<exists>as'. on_first_view3d (assign_view_rotation q) (a # as) = Inr as') =
        (\<exists>a'. assign_view_rotation q a = Inr a')"
      using True by (cases "assign_view_rotation q a") auto
    with True show ?thesis by (simp add: view3d_areas_def assign_view_rotation_returns)
  next
    case False
    have "(\<exists>as'. on_first_view3d (assign_view_rotation q) (a # as) = Inr as') =
        (\<exists>as'. on_first_view3d (assign_view_rotation q) as = Inr as')"
      using False by (cases "on_first_view3d (assign_view_rotation q) as") auto
    with False Cons.IH show ?thesis by (simp add: view3d_areas_def)
  qed
qed

lemma reset_area_returns:
  "(fst (reset_area h a ev) = Inr ()) = (spaces a \<noteq> [])"
  by (simp add: reset_area_def split: list.splits option.splits prod.splits)

lemma reset_loop_returns:
  "(fst (reset_loop h as ev) = Inr ()) =
     list_all (\<lambda>a. atype a = ''VIEW_3D'' \<longrightarrow> spaces a \<noteq> []) as"
proof (induction as arbitrary: ev)
  case Nil
  show ?case by simp
next
  case (Cons a as)
  show ?case
  proof (cases "atype a = ''VIEW_3D''")
    case False
    obtain r as1 ev1 where l: "reset_loop h as ev = (r, as1, ev1)"
      by (cases "reset_loop h as ev" rule: prod_cases3)
    from Cons.IH [of ev] l False show ?thesis by simp
  next
    case True
    obtain r a1 ev1 where a1: "reset_area h a ev = (r, a1, ev1)"
      by (cases "reset_area h a ev" rule: prod_cases3)
    obtain q as1 ev2 where l: "reset_loop h as ev1 = (q, as1, ev2)"
      by (cases "reset_loop h as ev1" rule: prod_cases3)
    from reset_area_returns [of h a ev] a1 have r: "(r = Inr ()) = (spaces a \<noteq> [])" by simp
    show ?thesis
    proof (cases r)
      case (Inl e)
      with r True a1 show ?thesis by simp
    next
      case (Inr u)
      with r True a1 l Cons.IH [of ev1] show ?thesis by simp
    qed
  qed
qed

lemma reset_status:
  "fst (execute_Reset3DView w) = Inr st \<Longrightarrow> st = FINISHED"
  by (cases "reset_loop (view_host w) (screen_areas w) (events w)" rule: prod_cases3)
     (auto simp: execute_Reset3DView_def split: sum.splits)

lemma reset_returns:
  "(fst (execute_Reset3DView w) = Inr FINISHED) =
     list_all (\<lambda>a. atype a = ''VIEW_3D'' \<longrightarrow> spaces a \<noteq> []) (screen_areas w)"
proof -
  obtain r as1 ev1 where l: "reset_loop (view_host w) (screen_areas w) (events w) = (r, as1, ev1)"
    by (cases "reset_loop (view_host w) (screen_areas w) (events w)" rule: prod_cases3)
  from reset_loop_returns [of "view_host w" "screen_areas w" "events w"] l
  have "(r = Inr ()) =
      list_all (\<lambda>a. atype a = ''VIEW_3D'' \<longrightarrow> spaces a \<noteq> []) (screen_areas w)" by simp
  with l show ?thesis by (cases r) (simp_all add: execute_Reset3DView_def)
qed

lemma viewrot_status:
  "fst (execute_ViewRot e2q w) = Inr st \<Longrightarrow> st = FINISHED"
  by (auto simp: execute_ViewRot_def Let_def split: sum.splits if_splits)

lemma viso_status:
  "fst (execute_viso w) = Inr st \<Longrightarrow> st = FINISHED"
  by (auto simp: execute_viso_def Let_def split: sum.splits if_splits)

lemma first_viewport_ok_rotation:
  "first_viewport_ok w =
     (\<exists>as'. on_first_view3d (assign_view_rotation q) (screen_areas w) = Inr as')"
  by (simp add: first_viewport_ok_def on_first_view3d_returns)

lemma viewrot_returns:
  "(fst (execute_ViewRot e2q w) = Inr FINISHED) = first_viewport_ok w"
proof (cases "view3d_areas (screen_areas w) = []")
  case True
  then show ?thesis by (simp add: execute_ViewRot_def first_viewport_ok_def)
next
  case False
  let ?q = "e2q (fst (rotation_coords (pdt_pg w)) * pi / 180)
             (fst (snd (rotation_coords (pdt_pg w))) * pi / 180)
             (snd (snd (rotation_coords (pdt_pg w))) * pi / 180)"
  show ?thesis
  proof (cases "on_first_view3d (assign_view_rotation ?q) (screen_areas w)")
    case (Inl e)
    with False first_viewport_ok_rotation [of w ?q] show ?thesis
      by (simp add: execute_ViewRot_def Let_def)
  next
    case (Inr as')
    with False first_viewport_ok_rotation [of w ?q] show ?thesis
      by (simp add: execute_ViewRot_def Let_def)
  qed
qed

lemma viso_returns:
  "(fst (execute_viso w) = Inr FINISHED) = first_viewport_ok w"
proof (cases "view3d_areas (screen_areas w) = []")
  case True
  then show ?thesis by (simp add: execute_viso_def first_viewport_ok_def)
next
  case False
  let ?q = "(0.8205, 0.4247, -0.1759, -0.3399) :: quaternion"
  show ?thesis
  proof (cases "on_first_view3d (assign_view_rotation ?q) (screen_areas w)")
    case (Inl e)
    with False first_viewport_ok_rotation [of w ?q] show ?thesis
      by (simp add: execute_viso_def Let_def)
  next
    case (Inr as')
    with False first_viewport_ok_rotation [of w ?q] show ?thesis
      by (simp add: execute_viso_def Let_def)
  qed
qed

lemma execute_status:
  "execute e2q op w = (Inr st, w') \<Longrightarrow> st = FINISHED"
proof (cases op)
  case PDT_OT_ViewRot
  then show "execute e2q op w = (Inr st, w') \<Longrightarrow> st = FINISHED"
    using viewrot_status [of e2q w st] by simp
next
  case PDT_OT_viso
  then show "execute e2q op w = (Inr st, w') \<Longrightarrow> st = FINISHED"
    using viso_status [of w st] by simp
next
  case PDT_OT_Reset3DView
  then show "execute e2q op w = (Inr st, w') \<Longrightarrow> st = FINISHED"
    using reset_status [of w st] by simp
qed (auto simp: execute_vRotL_def execute_vRotR_def execute_vRotU_def
        execute_vRotD_def execute_vRoll_def host_call_def Let_def split: if_splits)

lemma execute_no_viewport:
  "view3d_areas (screen_areas w) = [] \<Longrightarrow> execute e2q op w = (Inr FINISHED, w)"
  by (cases op)
     (simp_all add: execute_ViewRot_def execute_vRotL_def execute_vRotR_def execute_vRotU_def
        execute_vRotD_def execute_vRoll_def execute_viso_def execute_Reset3DView_def
        reset_loop_no_view3d)

lemma execute_returns:
  "(fst (execute e2q op w) = Inr FINISHED) = returns op w"
proof (cases op)
  case PDT_OT_ViewRot
  then show ?thesis by (simp add: viewrot_returns)
next
  case PDT_OT_viso
  then show ?thesis by (simp add: viso_returns)
next
  case PDT_OT_Reset3DView
  then show ?thesis by (simp add: reset_returns)
qed (simp_all add: execute_vRotL_def execute_vRotR_def execute_vRotU_def
        execute_vRotD_def execute_vRoll_def host_call_def command_ok_def Let_def)

text \<open>
  C3 (as stated): every invocation of an execute method returns \<^verbatim>\<open>{"FINISHED"}\<close>. The
  orbit and roll operators guard on the areas of the screen, while the host command
  they call polls the context it is called in: called from outside a 3D view, with a 3D
  view on the screen, \<^verbatim>\<open>pdt.viewleft\<close> hands its command over and raises.
\<close>

theorem orbit_outside_view3d_raises:
  "view3d_areas (screen_areas outside_world) = [sample_area] \<and>
   execute sample_e2q PDT_OT_vRotL outside_world =
     (Inl RuntimeError,
      outside_world\<lparr>events := [View_orbit (10 * pi / 180) ''ORBITLEFT'']\<rparr>)"
  by (simp add: execute_vRotL_def host_call_def view3d_areas_def outside_world_def
        sample_world_def properties_area_def sample_area_def Let_def)

text \<open>
  C3 (amended): an execute method that returns, returns \<^verbatim>\<open>{"FINISHED"}\<close>. When the
  screen has no area of type \<^verbatim>\<open>VIEW_3D\<close> it returns and leaves the whole state as it
  was. It returns exactly when \<open>returns\<close> holds: for \<^verbatim>\<open>pdt.viewrot\<close> and
  \<^verbatim>\<open>pdt.viewiso\<close>, when the first \<^verbatim>\<open>VIEW_3D\<close> area, if there is one, has region
  data in its first space; for the orbit and roll operators, when there is no
  \<^verbatim>\<open>VIEW_3D\<close> area or the context is that of a 3D view; for
  \<^verbatim>\<open>pdt.reset_3d_view\<close>, when every \<^verbatim>\<open>VIEW_3D\<close> area has a space. Otherwise it
  raises.
\<close>

theorem execute_finished:
  "(\<forall>st w'. execute e2q op w = (Inr st, w') \<longrightarrow> st = FINISHED) \<and>
   (view3d_areas (screen_areas w) = [] \<longrightarrow> execute e2q op w = (Inr FINISHED, w)) \<and>
   (fst (execute e2q op w) = Inr FINISHED) = returns op w"
proof (intro conjI allI impI)
  fix st w'
  assume "execute e2q op w = (Inr st, w')"
  then show "st = FINISHED" by (rule execute_status)
next
  assume "view3d_areas (screen_areas w) = []"
  then show "execute e2q op w = (Inr FINISHED, w)" by (rule execute_no_viewport)
next
  show "(fst (execute e2q op w) = Inr FINISHED) = returns op w" by (rule execute_returns)
qed

theorem execute_finished_witness:
  "returns PDT_OT_ViewRot sample_world \<and>
   fst (execute sample_e2q PDT_OT_ViewRot sample_world) = Inr FINISHED \<and>
   returns PDT_OT_Reset3DView sample_world \<and>
   fst (execute sample_e2q PDT_OT_Reset3DView sample_world) = Inr FINISHED \<and>
   \<not> returns PDT_OT_vRoll outside_world \<and>
   fst (execute sample_e2q PDT_OT_vRoll outside_world) \<noteq> Inr FINISHED \<and>
   view3d_areas (screen_areas bare_world) = [] \<and>
   execute sample_e2q PDT_OT_Reset3DView bare_world = (Inr FINISHED, bare_world)"
proof -
  have v: "view3d_areas (screen_areas sample_world) = [sample_area]"
    "view3d_areas (screen_areas outside_world) = [sample_area]"
    by (simp_all add: view3d_areas_def outside_world_def sample_world_def properties_area_def
          sample_area_def)
  have r1: "returns PDT_OT_ViewRot sample_world"
    by (simp add: first_viewport_ok_def v viewport_ok_def sample_area_def)
  have r2: "returns PDT_OT_Reset3DView sample_world"
    by (simp add: sample_world_def properties_area_def sample_area_def)
  have r3: "\<not> returns PDT_OT_vRoll outside_world"
    by (simp add: command_ok_def v) (simp add: outside_world_def)
  have none: "view3d_areas (screen_areas bare_world) = []"
    by (simp add: view3d_areas_def bare_world_def properties_area_def)
  from r1 r2 r3 none show ?thesis
    using execute_finished [of sample_e2q PDT_OT_ViewRot sample_world]
      execute_finished [of sample_e2q PDT_OT_Reset3DView sample_world]
      execute_finished [of sample_e2q PDT_OT_vRoll outside_world]
      execute_finished [of sample_e2q PDT_OT_Reset3DView bare_world]
    by simp
qed

subsection \<open>The scene settings are only read\<close>

text \<open>
  C9: no execute method changes the scene settings \<^verbatim>\<open>rotation_coords\<close> and
  \<^verbatim>\<open>vrotangle\<close>, whether it returns or raises.
\<close>

theorem execute_keeps_settings:
  "pdt_pg (snd (execute e2q op w)) = pdt_pg w"
  by (cases op)
     (auto simp: execute_ViewRot_def execute_vRotL_def execute_vRotR_def execute_vRotU_def
        execute_vRotD_def execute_vRoll_def execute_viso_def execute_Reset3DView_def
        host_call_def Let_def split: sum.splits prod.splits)

subsection \<open>Absolute view rotation\<close>

lemma on_first_view3d_filter:
  assumes "view3d_areas as = a # rest" and "f a = Inr a'" and "atype a' = atype a"
  shows "\<exists>as'. on_first_view3d f as = Inr as' \<and> view3d_areas as' = a' # rest"
  using assms(1)
proof (induction as)
  case Nil
  then show ?case by (simp add: view3d_areas_def)
next
  case (Cons b bs)
  show ?case
  proof (cases "atype b = ''VIEW_3D''")
    case True
    with Cons.prems have b: "b = a" and bs: "view3d_areas bs = rest"
      by (simp_all add: view3d_areas_def)
    from True b assms(3) have "atype a' = ''VIEW_3D''" by simp
    with True b bs assms(2) show ?thesis by (simp add: view3d_areas_def)
  next
    case False
    with Cons.prems have "view3d_areas bs = a # rest" by (simp add: view3d_areas_def)
    then obtain bs' where "on_first_view3d f bs = Inr bs'" and "view3d_areas bs' = a' # rest"
      using Cons.IH by blast
    with False show ?thesis by (simp add: view3d_areas_def)
  qed
qed

text \<open>
  C6: when the screen has a 3D viewport, \<^verbatim>\<open>pdt.viewrot\<close> returns and has assigned,
  as the view rotation of the first one, the quaternion that
  \<^verbatim>\<open>euler_to_quaternion\<close> gives for the three angles of \<^verbatim>\<open>rotation_coords\<close>,
  each multiplied by \<open>pi / 180\<close>; the other 3D viewports are as before.
\<close>

theorem viewrot_assigns_quaternion:
  assumes "view3d_areas (screen_areas w) = a # rest"
    and "spaces a = sp # sps"
    and "region_3d sp = Some view"
  shows "\<exists>as'. execute e2q PDT_OT_ViewRot w = (Inr FINISHED, w\<lparr>screen_areas := as'\<rparr>) \<and>
           view3d_areas as' =
             a\<lparr>spaces := sp\<lparr>region_3d := Some (view\<lparr>view_rotation :=
                 e2q (fst (rotation_coords (pdt_pg w)) * (pi / 180))
                     (fst (snd (rotation_coords (pdt_pg w))) * (pi / 180))
                     (snd (snd (rotation_coords (pdt_pg w))) * (pi / 180))\<rparr>)\<rparr> # sps\<rparr> # rest"
proof -
  define q where "q = e2q (fst (rotation_coords (pdt_pg w)) * pi / 180)
                     (fst (snd (rotation_coords (pdt_pg w))) * pi / 180)
                     (snd (snd (rotation_coords (pdt_pg w))) * pi / 180)"
  define a' where "a' = a\<lparr>spaces := sp\<lparr>region_3d := Some (view\<lparr>view_rotation := q\<rparr>)\<rparr> # sps\<rparr>"
  have fa: "assign_view_rotation q a = Inr a'"
    using assms(2,3) by (simp add: assign_view_rotation_def a'_def)
  have ty: "atype a' = atype a" by (simp add: a'_def)
  obtain as' where as': "on_first_view3d (assign_view_rotation q) (screen_areas w) = Inr as'"
    and flt: "view3d_areas as' = a' # rest"
    using on_first_view3d_filter [where f = "assign_view_rotation q", OF assms(1) fa ty] by blast
  have "execute e2q PDT_OT_ViewRot w = (Inr FINISHED, w\<lparr>screen_areas := as'\<rparr>)"
    using assms(1) as' by (simp add: execute_ViewRot_def Let_def q_def)
  with flt show ?thesis by (auto simp: a'_def q_def)
qed

theorem viewrot_assigns_quaternion_witness:
  "view3d_areas (screen_areas sample_world) = sample_area # [] \<and>
   spaces sample_area = \<lparr>region_3d = Some sample_view\<rparr> # [] \<and>
   (\<exists>as'. execute sample_e2q PDT_OT_ViewRot sample_world
            = (Inr FINISHED, sample_world\<lparr>screen_areas := as'\<rparr>) \<and>
          view3d_areas as' =
            [sample_area\<lparr>spaces := [\<lparr>region_3d = Some (sample_view\<lparr>view_rotation :=
                 (1, 90 * (pi / 180), 0, 45 * (pi / 180))\<rparr>)\<rparr>]\<rparr>])"
proof -
  have h1: "view3d_areas (screen_areas sample_world) = sample_area # []"
    by (simp add: view3d_areas_def sample_world_def properties_area_def sample_area_def)
  have h2: "spaces sample_area = \<lparr>region_3d = Some sample_view\<rparr> # []"
    by (simp add: sample_area_def)
  have h3: "region_3d \<lparr>region_3d = Some sample_view\<rparr> = Some sample_view" by simp
  show ?thesis
    using h1 h2 viewrot_assigns_quaternion [OF h1 h2 h3, of sample_e2q]
    by (simp add: sample_e2q_def sample_world_def)
qed

subsection \<open>Orbit and roll\<close>

text \<open>
  C7: when the screen has a 3D viewport, each orbit operator and the roll operator
  hands the host exactly one command, \<^verbatim>\<open>view_orbit\<close> or \<^verbatim>\<open>view_roll\<close>, with the
  tag that belongs to its identifier and with the angle \<^verbatim>\<open>vrotangle\<close> multiplied by
  \<open>pi / 180\<close>, whose sign is that of \<^verbatim>\<open>vrotangle\<close>. It does nothing else, and
  returns \<^verbatim>\<open>{"FINISHED"}\<close> unless the host refuses the command.
\<close>

theorem orbit_roll_delegate:
  assumes "view3d_areas (screen_areas w) \<noteq> []"
  shows "(bl_idname op = ''pdt.viewleft'' \<longrightarrow> execute e2q op w =
            (if view3d_context w then Inr FINISHED else Inl RuntimeError,
             w\<lparr>events := events w @
               [View_orbit (vrotangle (pdt_pg w) * (pi / 180)) ''ORBITLEFT'']\<rparr>)) \<and>
         (bl_idname op = ''pdt.viewright'' \<longrightarrow> execute e2q op w =
            (if view3d_context w then Inr FINISHED else Inl RuntimeError,
             w\<lparr>events := events w @
               [View_orbit (vrotangle (pdt_pg w) * (pi / 180)) ''ORBITRIGHT'']\<rparr>)) \<and>
         (bl_idname op = ''pdt.viewup'' \<longrightarrow> execute e2q op w =
            (if view3d_context w then Inr FINISHED else Inl RuntimeError,
             w\<lparr>events := events w @
               [View_orbit (vrotangle (pdt_pg w) * (pi / 180)) ''ORBITUP'']\<rparr>)) \<and>
         (bl_idname op = ''pdt.viewdown'' \<longrightarrow> execute e2q op w =
            (if view3d_context w then Inr FINISHED else Inl RuntimeError,
             w\<lparr>events := events w @
               [View_orbit (vrotangle (pdt_pg w) * (pi / 180)) ''ORBITDOWN'']\<rparr>)) \<and>
         (bl_idname op = ''pdt.viewroll'' \<longrightarrow> execute e2q op w =
            (if view3d_context w then Inr FINISHED else Inl RuntimeError,
             w\<lparr>events := events w @
               [View_roll (vrotangle (pdt_pg w) * (pi / 180)) ''ANGLE'']\<rparr>)) \<and>
         sgn (vrotangle (pdt_pg w) * (pi / 180)) = sgn (vrotangle (pdt_pg w))"
proof -
  have "sgn (vrotangle (pdt_pg w) * (pi / 180)) = sgn (vrotangle (pdt_pg w))"
    by (simp add: sgn_mult)
  moreover have "length (view3d_areas (screen_areas w)) > 0" using assms by simp
  ultimately show ?thesis
    by (cases op)
       (simp_all add: execute_vRotL_def execute_vRotR_def execute_vRotU_def
          execute_vRotD_def execute_vRoll_def host_call_def Let_def)
qed

theorem orbit_roll_delegate_witness:
  "view3d_areas (screen_areas sample_world) \<noteq> [] \<and>
   bl_idname PDT_OT_vRotL = ''pdt.viewleft'' \<and>
   execute sample_e2q PDT_OT_vRotL sample_world =
     (Inr FINISHED, sample_world\<lparr>events := [View_orbit (10 * (pi / 180)) ''ORBITLEFT'']\<rparr>) \<and>
   bl_idname PDT_OT_vRoll = ''pdt.viewroll'' \<and>
   execute sample_e2q PDT_OT_vRoll sample_world =
     (Inr FINISHED, sample_world\<lparr>events := [View_roll (10 * (pi / 180)) ''ANGLE'']\<rparr>)"
proof -
  have h: "view3d_areas (screen_areas sample_world) \<noteq> []"
    by (simp add: view3d_areas_def sample_world_def properties_area_def sample_area_def)
  show ?thesis
    using h orbit_roll_delegate [OF h, of PDT_OT_vRotL sample_e2q]
      orbit_roll_delegate [OF h, of PDT_OT_vRoll sample_e2q]
    by (simp add: sample_world_def)
qed

subsection \<open>Reset to the default view\<close>

lemma reset_view_pose:
  "fst (reset_view h view ev) =
     (if is_orthographic_side_view view
      then view\<lparr>view_distance := default_view_distance, view_location := (0, 0, 0),
                view_matrix := compose_matrix h (view_rotation view) (0, 0, 0) default_view_distance\<rparr>
      else view\<lparr>view_rotation := matrix_rotation h default_view_matrix,
                view_location := matrix_location h default_view_matrix (view_distance view),
                view_matrix := compose_matrix h (matrix_rotation h default_view_matrix)
                   (matrix_location h default_view_matrix (view_distance view))
                   (view_distance view)\<rparr>)"
  by (simp add: reset_view_def region_update_def assign_view_matrix_def Let_def)

lemma reset_view_trace:
  "snd (reset_view h view ev) = ev @
     (if is_orthographic_side_view view
      then [Debug ''is_orthographic_side_view: '' (DBool True),
            Debug ''view_distance before reset: '' (DReal (view_distance view)),
            Debug ''view_location before reset: '' (DVec (view_location view)),
            Region_update,
            Debug ''view_distance AFTER reset: '' (DReal default_view_distance),
            Debug ''view_location AFTER reset: '' (DVec (0, 0, 0))]
      else [Debug ''is_orthographic_side_view: '' (DBool False),
            Debug (''view_matrix before reset:'' @ [CHR 0x0A]) (DMat (view_matrix view)),
            Region_update,
            Debug (''view_matrix AFTER reset:'' @ [CHR 0x0A])
              (DMat (compose_matrix h (matrix_rotation h default_view_matrix)
                 (matrix_location h default_view_matrix (view_distance view))
                 (view_distance view)))])"
  by (simp add: reset_view_def region_update_def assign_view_matrix_def Let_def)

lemma reset_view_twice:
  "fst (reset_view h (fst (reset_view h view ev)) ev') = fst (reset_view h view ev)"
  by (simp add: reset_view_pose)

lemma reset_area_atype: "atype (fst (snd (reset_area h a ev))) = atype a"
  by (simp add: reset_area_def split: list.splits option.splits prod.splits)

lemma reset_area_twice:
  "fst (reset_area h (fst (snd (reset_area h a ev))) ev') = fst (reset_area h a ev) \<and>
   fst (snd (reset_area h (fst (snd (reset_area h a ev))) ev')) = fst (snd (reset_area h a ev))"
proof (cases "spaces a")
  case Nil
  then show ?thesis by (simp add: reset_area_def)
next
  case (Cons sp sps)
  show ?thesis
  proof (cases "region_3d sp")
    case None
    with Cons show ?thesis by (simp add: reset_area_def)
  next
    case (Some view)
    obtain v1 ev1 where r1: "reset_view h view ev = (v1, ev1)" by (cases "reset_view h view ev")
    obtain v2 ev2 where r2: "reset_view h v1 ev' = (v2, ev2)" by (cases "reset_view h v1 ev'")
    have "v2 = v1" using reset_view_twice [of h view ev ev'] r1 r2 by simp
    with Cons Some r1 r2 show ?thesis by (simp add: reset_area_def)
  qed
qed

lemma reset_loop_twice:
  "fst (snd (reset_loop h (fst (snd (reset_loop h as ev))) ev')) = fst (snd (reset_loop h as ev))"
proof (induction as arbitrary: ev ev')
  case Nil
  show ?case by simp
next
  case (Cons a as)
  show ?case
  proof (cases "atype a = ''VIEW_3D''")
    case False
    obtain r as1 ev1 where l1: "reset_loop h as ev = (r, as1, ev1)"
      by (cases "reset_loop h as ev" rule: prod_cases3)
    obtain r' as2 ev2 where l2: "reset_loop h as1 ev' = (r', as2, ev2)"
      by (cases "reset_loop h as1 ev'" rule: prod_cases3)
    have "as2 = as1" using Cons.IH [of ev ev'] l1 l2 by simp
    with False l1 l2 show ?thesis by simp
  next
    case True
    obtain r a1 ev1 where a1: "reset_area h a ev = (r, a1, ev1)"
      by (cases "reset_area h a ev" rule: prod_cases3)
    obtain r' a2 ev2 where a2: "reset_area h a1 ev' = (r', a2, ev2)"
      by (cases "reset_area h a1 ev'" rule: prod_cases3)
    have same: "r' = r" "a2 = a1" using reset_area_twice [of h a ev ev'] a1 a2 by simp_all
    have ty: "atype a1 = ''VIEW_3D''" using reset_area_atype [of h a ev] a1 True by simp
    show ?thesis
    proof (cases r)
      case (Inl e)
      with True ty a1 a2 same show ?thesis by simp
    next
      case (Inr u)
      obtain q as1 ev3 where l1: "reset_loop h as ev1 = (q, as1, ev3)"
        by (cases "reset_loop h as ev1" rule: prod_cases3)
      obtain q' as2 ev4 where l2: "reset_loop h as1 ev2 = (q', as2, ev4)"
        by (cases "reset_loop h as1 ev2" rule: prod_cases3)
      have "as2 = as1" using Cons.IH [of ev1 ev2] l1 l2 by simp
      with Inr True ty a1 a2 same l1 l2 show ?thesis by simp
    qed
  qed
qed

lemma execute_Reset3DView_areas:
  "screen_areas (snd (execute_Reset3DView w)) =
     fst (snd (reset_loop (view_host w) (screen_areas w) (events w)))"
  by (cases "reset_loop (view_host w) (screen_areas w) (events w)" rule: prod_cases3)
     (simp add: execute_Reset3DView_def split: sum.splits)

lemma execute_Reset3DView_events:
  "events (snd (execute_Reset3DView w)) =
     snd (snd (reset_loop (view_host w) (screen_areas w) (events w)))"
  by (cases "reset_loop (view_host w) (screen_areas w) (events w)" rule: prod_cases3)
     (simp add: execute_Reset3DView_def split: sum.splits)

lemma execute_Reset3DView_host:
  "view_host (snd (execute_Reset3DView w)) = view_host w"
  by (cases "reset_loop (view_host w) (screen_areas w) (events w)" rule: prod_cases3)
     (simp add: execute_Reset3DView_def split: sum.splits)

text \<open>
  C1: the reset operator is idempotent. From every state, the areas of the screen, and
  so the rotation, distance, location and view matrix of every 3D viewport, are the same
  after two runs in succession as after one.
\<close>

theorem reset_idempotent:
  "screen_areas (snd (execute e2q PDT_OT_Reset3DView (snd (execute e2q PDT_OT_Reset3DView w))))
     = screen_areas (snd (execute e2q PDT_OT_Reset3DView w))"
  by (simp add: execute_Reset3DView_areas execute_Reset3DView_host reset_loop_twice)

lemma reset_area_viewport:
  assumes "spaces a = sp # sps" and "region_3d sp = Some view"
  shows "reset_area h a ev =
           (Inr (), a\<lparr>spaces := sp\<lparr>region_3d := Some (fst (reset_view h view ev))\<rparr> # sps\<rparr>,
            snd (reset_view h view ev))"
  using assms by (simp add: reset_area_def split: prod.splits)

lemma reset_area_no_view:
  assumes "spaces a = sp # sps" and "region_3d sp = None"
  shows "reset_area h a ev = (Inr (), a, ev)"
  using assms by (simp add: reset_area_def)

lemma reset_area_no_space:
  assumes "spaces a = []"
  shows "reset_area h a ev = (Inl IndexError, a, ev)"
  using assms by (simp add: reset_area_def)





lemma reset_view_trace_append:
  "snd (reset_view h view ev) = ev @ snd (reset_view h view [])"
  by (simp add: reset_view_trace)

lemma reset_view_pose_any: "fst (reset_view h view ev) = fst (reset_view h view [])"
  by (simp add: reset_view_pose)

lemma reset_loop_events:
  "snd (snd (reset_loop h as ev)) =
     ev @ concat (map (\<lambda>view. snd (reset_view h view [])) (visited_views as))"
proof (induction as arbitrary: ev)
  case Nil
  show ?case by simp
next
  case (Cons a as)
  show ?case
  proof (cases "atype a = ''VIEW_3D''")
    case False
    obtain r as1 ev1 where l: "reset_loop h as ev = (r, as1, ev1)"
      by (cases "reset_loop h as ev" rule: prod_cases3)
    from Cons.IH [of ev] l False show ?thesis by simp
  next
    case True
    show ?thesis
    proof (cases "spaces a")
      case Nil
      with True show ?thesis by (simp add: reset_area_no_space)
    next
      case (Cons sp sps)
      show ?thesis
      proof (cases "region_3d sp")
        case None
        obtain r as1 ev1 where l: "reset_loop h as ev = (r, as1, ev1)"
          by (cases "reset_loop h as ev" rule: prod_cases3)
        from Cons.IH [of ev] l True Cons None show ?thesis
          by (simp add: reset_area_no_view [OF Cons None])
      next
        case (Some view)
        let ?ev1 = "snd (reset_view h view ev)"
        obtain r as1 ev2 where l: "reset_loop h as ?ev1 = (r, as1, ev2)"
          by (cases "reset_loop h as ?ev1" rule: prod_cases3)
        from Cons.IH [of ?ev1] l have "ev2 = ?ev1 @
            concat (map (\<lambda>view. snd (reset_view h view [])) (visited_views as))" by simp
        with l True Cons Some show ?thesis
          by (simp add: reset_area_viewport [OF Cons Some] reset_view_trace_append [of h view ev])
      qed
    qed
  qed
qed

lemma reset_loop_views:
  "visited_views (fst (snd (reset_loop h as ev))) =
     map (\<lambda>view. fst (reset_view h view [])) (visited_views as)"
proof (induction as arbitrary: ev)
  case Nil
  show ?case by simp
next
  case (Cons a as)
  show ?case
  proof (cases "atype a = ''VIEW_3D''")
    case False
    obtain r as1 ev1 where l: "reset_loop h as ev = (r, as1, ev1)"
      by (cases "reset_loop h as ev" rule: prod_cases3)
    from Cons.IH [of ev] l False show ?thesis by simp
  next
    case True
    show ?thesis
    proof (cases "spaces a")
      case Nil
      with True show ?thesis by (simp add: reset_area_no_space)
    next
      case (Cons sp sps)
      show ?thesis
      proof (cases "region_3d sp")
        case None
        obtain r as1 ev1 where l: "reset_loop h as ev = (r, as1, ev1)"
          by (cases "reset_loop h as ev" rule: prod_cases3)
        from Cons.IH [of ev] l True Cons None show ?thesis
          by (simp add: reset_area_no_view [OF Cons None])
      next
        case (Some view)
        let ?ev1 = "snd (reset_view h view ev)"
        obtain r as1 ev2 where l: "reset_loop h as ?ev1 = (r, as1, ev2)"
          by (cases "reset_loop h as ?ev1" rule: prod_cases3)
        from Cons.IH [of ?ev1] l have "visited_views as1 =
            map (\<lambda>view. fst (reset_view h view [])) (visited_views as)" by simp
        with l True Cons Some show ?thesis
          by (simp add: reset_area_viewport [OF Cons Some] reset_view_pose_any [of h view ev])
      qed
    qed
  qed
qed

text \<open>
  C5: the branch the reset operator takes for each 3D viewport is decided by
  \<^verbatim>\<open>is_orthographic_side_view\<close> alone. For the views the loop comes to, in its order,
  the trace of the operator is that of the distance and location branch where the flag
  is true and that of the view matrix branch where it is false, and so are the
  assignments made to the view.
\<close>

theorem reset_branch_selection:
  "events (snd (execute e2q PDT_OT_Reset3DView w)) =
     events w @ concat (map (\<lambda>view.
        if is_orthographic_side_view view
        then [Debug ''is_orthographic_side_view: '' (DBool True),
              Debug ''view_distance before reset: '' (DReal (view_distance view)),
              Debug ''view_location before reset: '' (DVec (view_location view)),
              Region_update,
              Debug ''view_distance AFTER reset: '' (DReal default_view_distance),
              Debug ''view_location AFTER reset: '' (DVec (0, 0, 0))]
        else [Debug ''is_orthographic_side_view: '' (DBool False),
              Debug (''view_matrix before reset:'' @ [CHR 0x0A]) (DMat (view_matrix view)),
              Region_update,
              Debug (''view_matrix AFTER reset:'' @ [CHR 0x0A])
                (DMat (compose_matrix (view_host w)
                   (matrix_rotation (view_host w) default_view_matrix)
                   (matrix_location (view_host w) default_view_matrix (view_distance view))
                   (view_distance view)))])
       (visited_views (screen_areas w))) \<and>
   visited_views (screen_areas (snd (execute e2q PDT_OT_Reset3DView w))) =
     map (\<lambda>view.
        if is_orthographic_side_view view
        then view\<lparr>view_distance := default_view_distance, view_location := (0, 0, 0),
                  view_matrix := compose_matrix (view_host w) (view_rotation view) (0, 0, 0)
                     default_view_distance\<rparr>
        else view\<lparr>view_rotation := matrix_rotation (view_host w) default_view_matrix,
                  view_location :=
                    matrix_location (view_host w) default_view_matrix (view_distance view),
                  view_matrix := compose_matrix (view_host w)
                     (matrix_rotation (view_host w) default_view_matrix)
                     (matrix_location (view_host w) default_view_matrix (view_distance view))
                     (view_distance view)\<rparr>)
       (visited_views (screen_areas w))"
proof -
  have t: "(\<lambda>view. snd (reset_view (view_host w) view [])) = (\<lambda>view.
        if is_orthographic_side_view view
        then [Debug ''is_orthographic_side_view: '' (DBool True),
              Debug ''view_distance before reset: '' (DReal (view_distance view)),
              Debug ''view_location before reset: '' (DVec (view_location view)),
              Region_update,
              Debug ''view_distance AFTER reset: '' (DReal default_view_distance),
              Debug ''view_location AFTER reset: '' (DVec (0, 0, 0))]
        else [Debug ''is_orthographic_side_view: '' (DBool False),
              Debug (''view_matrix before reset:'' @ [CHR 0x0A]) (DMat (view_matrix view)),
              Region_update,
              Debug (''view_matrix AFTER reset:'' @ [CHR 0x0A])
                (DMat (compose_matrix (view_host w)
                   (matrix_rotation (view_host w) default_view_matrix)
                   (matrix_location (view_host w) default_view_matrix (view_distance view))
                   (view_distance view)))])"
    by (rule ext) (simp add: reset_view_trace)
  have p: "(\<lambda>view. fst (reset_view (view_host w) view [])) = (\<lambda>view.
        if is_orthographic_side_view view
        then view\<lparr>view_distance := default_view_distance, view_location := (0, 0, 0),
                  view_matrix := compose_matrix (view_host w) (view_rotation view) (0, 0, 0)
                     default_view_distance\<rparr>
        else view\<lparr>view_rotation := matrix_rotation (view_host w) default_view_matrix,
                  view_location :=
                    matrix_location (view_host w) default_view_matrix (view_distance view),
                  view_matrix := compose_matrix (view_host w)
                     (matrix_rotation (view_host w) default_view_matrix)
                     (matrix_location (view_host w) default_view_matrix (view_distance view))
                     (view_distance view)\<rparr>)"
    by (rule ext) (simp add: reset_view_pose)
  have "events (snd (execute e2q PDT_OT_Reset3DView w)) =
      events w @ concat (map (\<lambda>view. snd (reset_view (view_host w) view []))
        (visited_views (screen_areas w)))"
    by (simp add: execute_Reset3DView_events reset_loop_events)
  moreover have "visited_views (screen_areas (snd (execute e2q PDT_OT_Reset3DView w))) =
      map (\<lambda>view. fst (reset_view (view_host w) view [])) (visited_views (screen_areas w))"
    by (simp add: execute_Reset3DView_areas reset_loop_views)
  ultimately show ?thesis unfolding t p by simp
qed

subsection \<open>The tooltip highlight\<close>

lemma description_hook:
  "bl_description op = Some d \<Longrightarrow> description op g w = Some (description_body d g w)"
  by (cases op) simp_all

lemma py_index_bound: "py_index n g = Inr k \<Longrightarrow> k < n"
  by (auto simp: py_index_def split: if_splits)

lemma py_index_cases:
  "py_index n g =
     (if g < - int n \<or> int n \<le> g then Inl IndexError
      else if g < 0 then Inr (nat (int n + g)) else Inr (nat g))"
  by (simp add: py_index_def)

lemma highlight_valid:
  assumes "py_index (length (ui_groups w)) g = Inr k"
  shows "highlight g w =
     (Inr (), w\<lparr>ui_groups := (ui_groups w)[k := True],
                events := events w @ [Tag_redraw],
                timers := timers w @ [\<lparr>timer_fn = Set_false g, timer_due = clock w + 2\<rparr>]\<rparr>)"
  using assms by (simp add: highlight_def py_setitem_def redraw_def timers_register_def)

lemma highlight_invalid:
  assumes "py_index (length (ui_groups w)) g = Inl e"
  shows "highlight g w = (Inl e, w)"
  using assms by (simp add: highlight_def py_setitem_def)

lemma set_false_valid:
  assumes "py_index (length (ui_groups w)) g = Inr k"
  shows "snd (set_false g w) =
     w\<lparr>ui_groups := (ui_groups w)[k := False], events := events w @ [Tag_redraw]\<rparr>"
  using assms by (simp add: set_false_def py_setitem_def redraw_def)

lemma set_false_invalid:
  assumes "py_index (length (ui_groups w)) g = Inl e"
  shows "snd (set_false g w) = w"
  using assms by (simp add: set_false_def py_setitem_def)

lemma run_callback_length:
  "length (ui_groups (run_callback cb w)) = length (ui_groups w)"
proof (cases cb)
  case (Set_false g)
  show ?thesis
  proof (cases "py_index (length (ui_groups w)) g")
    case (Inl e)
    with Set_false show ?thesis by (simp add: set_false_invalid)
  next
    case (Inr j)
    with Set_false show ?thesis by (simp add: set_false_valid)
  qed
qed

lemma run_callback_timers:
  "timers (run_callback cb w) = timers w"
proof (cases cb)
  case (Set_false g)
  show ?thesis
  proof (cases "py_index (length (ui_groups w)) g")
    case (Inl e)
    with Set_false show ?thesis by (simp add: set_false_invalid)
  next
    case (Inr j)
    with Set_false show ?thesis by (simp add: set_false_valid)
  qed
qed

lemma run_callback_other:
  assumes "py_index (length (ui_groups w)) (callback_ui_group cb) \<noteq> Inr k"
  shows "ui_groups (run_callback cb w) ! k = ui_groups w ! k"
proof (cases cb)
  case (Set_false g)
  show ?thesis
  proof (cases "py_index (length (ui_groups w)) g")
    case (Inl e)
    with Set_false show ?thesis by (simp add: set_false_invalid)
  next
    case (Inr j)
    with assms Set_false have "j \<noteq> k" by auto
    with Set_false Inr show ?thesis by (simp add: set_false_valid)
  qed
qed

lemma fold_callbacks_length:
  "length (ui_groups (fold (\<lambda>tm. run_callback (timer_fn tm)) tms w)) = length (ui_groups w)"
  by (induction tms arbitrary: w) (simp_all add: run_callback_length)

lemma fold_callbacks_timers:
  "timers (fold (\<lambda>tm. run_callback (timer_fn tm)) tms w) = timers w"
  by (induction tms arbitrary: w) (simp_all add: run_callback_timers)

lemma fold_callbacks_other:
  assumes "\<forall>tm \<in> set tms.
             py_index (length (ui_groups w)) (callback_ui_group (timer_fn tm)) \<noteq> Inr k"
  shows "ui_groups (fold (\<lambda>tm. run_callback (timer_fn tm)) tms w) ! k = ui_groups w ! k"
  using assms
proof (induction tms arbitrary: w)
  case Nil
  show ?case by simp
next
  case (Cons tm tms)
  let ?w = "run_callback (timer_fn tm) w"
  have len: "length (ui_groups ?w) = length (ui_groups w)" by (rule run_callback_length)
  from Cons.prems have "\<forall>tm \<in> set tms.
      py_index (length (ui_groups ?w)) (callback_ui_group (timer_fn tm)) \<noteq> Inr k"
    by (simp add: len)
  then have "ui_groups (fold (\<lambda>tm. run_callback (timer_fn tm)) tms ?w) ! k = ui_groups ?w ! k"
    by (rule Cons.IH)
  moreover from Cons.prems have "ui_groups ?w ! k = ui_groups w ! k"
    by (simp add: run_callback_other)
  ultimately show ?case by simp
qed


lemma py_index_valid:
  "py_index n g \<noteq> Inl IndexError \<Longrightarrow> \<exists>j. py_index n g = Inr j"
  by (cases "py_index n g") (auto simp: py_index_def split: if_splits)

lemma run_callback_events:
  "events (run_callback cb w) = events w @
     (if py_index (length (ui_groups w)) (callback_ui_group cb) \<noteq> Inl IndexError
      then [Tag_redraw] else [])"
proof (cases cb)
  case (Set_false g)
  show ?thesis
  proof (cases "py_index (length (ui_groups w)) g")
    case (Inl e)
    then have "e = IndexError" by (auto simp: py_index_def split: if_splits)
    with Inl Set_false show ?thesis by (simp add: set_false_invalid)
  next
    case (Inr j)
    with Set_false show ?thesis by (simp add: set_false_valid)
  qed
qed

lemma run_callback_clock: "clock (run_callback cb w) = clock w"
proof (cases cb)
  case (Set_false g)
  show ?thesis
  proof (cases "py_index (length (ui_groups w)) g")
    case (Inl e)
    with Set_false show ?thesis by (simp add: set_false_invalid)
  next
    case (Inr j)
    with Set_false show ?thesis by (simp add: set_false_valid)
  qed
qed

lemma run_callback_clears:
  assumes "py_index (length (ui_groups w)) (callback_ui_group cb) = Inr k"
  shows "ui_groups (run_callback cb w) ! k = False"
proof (cases cb)
  case (Set_false g)
  from assms have "k < length (ui_groups w)" by (rule py_index_bound)
  with assms Set_false show ?thesis by (simp add: set_false_valid)
qed

lemma run_callback_false_stays:
  assumes "ui_groups w ! k = False"
  shows "ui_groups (run_callback cb w) ! k = False"
proof (cases "py_index (length (ui_groups w)) (callback_ui_group cb) = Inr k")
  case True
  then show ?thesis by (rule run_callback_clears)
next
  case False
  with assms show ?thesis by (simp add: run_callback_other)
qed

lemma fold_callbacks_clock:
  "clock (fold (\<lambda>tm. run_callback (timer_fn tm)) tms w) = clock w"
  by (induction tms arbitrary: w) (simp_all add: run_callback_clock)

lemma fold_callbacks_false_stays:
  "ui_groups w ! k = False \<Longrightarrow>
   ui_groups (fold (\<lambda>tm. run_callback (timer_fn tm)) tms w) ! k = False"
  by (induction tms arbitrary: w) (simp_all add: run_callback_false_stays)

lemma fold_callbacks_clears:
  assumes "\<exists>tm \<in> set tms.
             py_index (length (ui_groups w)) (callback_ui_group (timer_fn tm)) = Inr k"
  shows "ui_groups (fold (\<lambda>tm. run_callback (timer_fn tm)) tms w) ! k = False"
  using assms
proof (induction tms arbitrary: w)
  case Nil
  then show ?case by simp
next
  case (Cons tm tms)
  let ?w = "run_callback (timer_fn tm) w"
  have len: "length (ui_groups ?w) = length (ui_groups w)" by (rule run_callback_length)
  show ?case
  proof (cases "py_index (length (ui_groups w)) (callback_ui_group (timer_fn tm)) = Inr k")
    case True
    then have "ui_groups ?w ! k = False" by (rule run_callback_clears)
    then show ?thesis by (simp add: fold_callbacks_false_stays)
  next
    case False
    with Cons.prems have "\<exists>tm \<in> set tms.
        py_index (length (ui_groups ?w)) (callback_ui_group (timer_fn tm)) = Inr k"
      by (auto simp: len)
    then have "ui_groups (fold (\<lambda>tm. run_callback (timer_fn tm)) tms ?w) ! k = False"
      by (rule Cons.IH)
    then show ?thesis by simp
  qed
qed

lemma fold_callbacks_events:
  "events (fold (\<lambda>tm. run_callback (timer_fn tm)) tms w) = events w @
     replicate (length (filter (\<lambda>tm.
        py_index (length (ui_groups w)) (callback_ui_group (timer_fn tm)) \<noteq> Inl IndexError) tms))
       Tag_redraw"
proof (induction tms arbitrary: w)
  case Nil
  show ?case by simp
next
  case (Cons tm tms)
  let ?w = "run_callback (timer_fn tm) w"
  have len: "length (ui_groups ?w) = length (ui_groups w)" by (rule run_callback_length)
  from Cons.IH [of ?w] show ?case
    by (simp add: len run_callback_events replicate_append_same)
qed

lemma advance_length: "length (ui_groups (advance t w)) = length (ui_groups w)"
  by (simp add: advance_def fold_callbacks_length)

lemma advance_timers:
  "timers (advance t w) = filter (\<lambda>tm. \<not> timer_due tm \<le> t) (timers w)"
  by (simp add: advance_def fold_callbacks_timers)

lemma advance_clock: "clock (advance t w) = max (clock w) t"
  by (simp add: advance_def fold_callbacks_clock)

lemma advance_events:
  "events (advance t w) = events w @ replicate (length (firing t w)) Tag_redraw"
  by (simp add: advance_def fold_callbacks_events firing_def)

lemma advance_other:
  assumes "\<forall>tm \<in> set (timers w). timer_due tm \<le> t \<longrightarrow>
             py_index (length (ui_groups w)) (callback_ui_group (timer_fn tm)) \<noteq> Inr k"
  shows "ui_groups (advance t w) ! k = ui_groups w ! k"
proof -
  let ?w = "w\<lparr>timers := filter (\<lambda>tm. \<not> timer_due tm \<le> t) (timers w),
               clock := max (clock w) t\<rparr>"
  from assms have "\<forall>tm \<in> set (filter (\<lambda>tm. timer_due tm \<le> t) (timers w)).
      py_index (length (ui_groups ?w)) (callback_ui_group (timer_fn tm)) \<noteq> Inr k" by simp
  then have "ui_groups (fold (\<lambda>tm. run_callback (timer_fn tm))
      (filter (\<lambda>tm. timer_due tm \<le> t) (timers w)) ?w) ! k = ui_groups ?w ! k"
    by (rule fold_callbacks_other)
  then show ?thesis by (simp add: advance_def)
qed

lemma advance_clears:
  assumes "tm \<in> set (timers w)" and "timer_due tm \<le> t"
    and "py_index (length (ui_groups w)) (callback_ui_group (timer_fn tm)) = Inr k"
  shows "ui_groups (advance t w) ! k = False"
proof -
  let ?w = "w\<lparr>timers := filter (\<lambda>tm. \<not> timer_due tm \<le> t) (timers w),
               clock := max (clock w) t\<rparr>"
  from assms have "\<exists>tm \<in> set (filter (\<lambda>tm. timer_due tm \<le> t) (timers w)).
      py_index (length (ui_groups ?w)) (callback_ui_group (timer_fn tm)) = Inr k" by auto
  then have "ui_groups (fold (\<lambda>tm. run_callback (timer_fn tm))
      (filter (\<lambda>tm. timer_due tm \<le> t) (timers w)) ?w) ! k = False"
    by (rule fold_callbacks_clears)
  then show ?thesis by (simp add: advance_def)
qed

lemma request_cases:
  "step (Request op g) w = w \<or>
   (\<exists>j. py_index (length (ui_groups w)) g = Inr j \<and>
        step (Request op g) w =
          w\<lparr>ui_groups := (ui_groups w)[j := True], events := events w @ [Tag_redraw],
            timers := timers w @ [\<lparr>timer_fn = Set_false g, timer_due = clock w + 2\<rparr>]\<rparr>)"
proof (cases "bl_description op")
  case None
  then have "description op g w = None" by (cases op) simp_all
  then show ?thesis by simp
next
  case (Some d)
  show ?thesis
  proof (cases "g = -1")
    case True
    with Some show ?thesis by (simp add: description_hook description_body_def)
  next
    case False
    show ?thesis
    proof (cases "py_index (length (ui_groups w)) g")
      case (Inl e)
      with Some False show ?thesis
        by (simp add: description_hook description_body_def highlight_invalid)
    next
      case (Inr j)
      with Some False show ?thesis
        by (simp add: description_hook description_body_def highlight_valid)
    qed
  qed
qed

lemma step_keeps_window:
  assumes len: "length (ui_groups w) = n"
    and flag: "ui_groups w ! k = True"
    and k: "k < n"
    and new: "new \<in> set (timers w)"
    and due: "timer_due new = T"
    and later: "\<forall>tm \<in> set (timers w).
        py_index n (callback_ui_group (timer_fn tm)) = Inr k \<longrightarrow> T \<le> timer_due tm"
    and clk: "T \<le> clock w + 2"
    and act: "waits_before T [a]"
  shows "length (ui_groups (step a w)) = n \<and>
         ui_groups (step a w) ! k = True \<and>
         new \<in> set (timers (step a w)) \<and>
         (\<forall>tm \<in> set (timers (step a w)).
            py_index n (callback_ui_group (timer_fn tm)) = Inr k \<longrightarrow> T \<le> timer_due tm) \<and>
         T \<le> clock (step a w) + 2"
proof (cases a)
  case (Wait t)
  with act have t: "t < T" by simp
  from later t len have "\<forall>tm \<in> set (timers w). timer_due tm \<le> t \<longrightarrow>
      py_index (length (ui_groups w)) (callback_ui_group (timer_fn tm)) \<noteq> Inr k"
    by auto
  then have "ui_groups (advance t w) ! k = ui_groups w ! k" by (rule advance_other)
  moreover from new due t have "new \<in> set (timers (advance t w))"
    by (simp add: advance_timers)
  moreover from later have "\<forall>tm \<in> set (timers (advance t w)).
      py_index n (callback_ui_group (timer_fn tm)) = Inr k \<longrightarrow> T \<le> timer_due tm"
    by (simp add: advance_timers)
  moreover from clk have "T \<le> clock (advance t w) + 2" by (simp add: advance_clock)
  ultimately show ?thesis using Wait len flag by (simp add: advance_length)
next
  case (Request op g)
  from request_cases [of op g w] show ?thesis
  proof
    assume "step (Request op g) w = w"
    with Request len flag new later clk show ?thesis by simp
  next
    assume "\<exists>j. py_index (length (ui_groups w)) g = Inr j \<and>
        step (Request op g) w =
          w\<lparr>ui_groups := (ui_groups w)[j := True], events := events w @ [Tag_redraw],
            timers := timers w @ [\<lparr>timer_fn = Set_false g, timer_due = clock w + 2\<rparr>]\<rparr>"
    then obtain j where j: "py_index (length (ui_groups w)) g = Inr j"
      and s: "step (Request op g) w =
          w\<lparr>ui_groups := (ui_groups w)[j := True], events := events w @ [Tag_redraw],
            timers := timers w @ [\<lparr>timer_fn = Set_false g, timer_due = clock w + 2\<rparr>]\<rparr>"
      by blast
    have "((ui_groups w)[j := True]) ! k = True"
      using flag k len by (cases "j = k") simp_all
    with Request s len new later clk show ?thesis by auto
  qed
qed

lemma run_keeps_window:
  assumes "waits_before T acts"
    and "length (ui_groups w) = n"
    and "ui_groups w ! k = True"
    and "k < n"
    and "new \<in> set (timers w)"
    and "timer_due new = T"
    and "\<forall>tm \<in> set (timers w).
        py_index n (callback_ui_group (timer_fn tm)) = Inr k \<longrightarrow> T \<le> timer_due tm"
    and "T \<le> clock w + 2"
  shows "length (ui_groups (run acts w)) = n \<and>
         ui_groups (run acts w) ! k = True \<and>
         new \<in> set (timers (run acts w))"
  using assms
proof (induction acts arbitrary: w)
  case Nil
  then show ?case by (simp add: run_def)
next
  case (Cons a acts)
  from Cons.prems(1) have one: "waits_before T [a]" and rest: "waits_before T acts"
    by (cases a; simp)+
  from step_keeps_window [OF Cons.prems(2-8) one]
  have s1: "length (ui_groups (step a w)) = n" and s2: "ui_groups (step a w) ! k = True"
    and s3: "new \<in> set (timers (step a w))"
    and s4: "\<forall>tm \<in> set (timers (step a w)).
        py_index n (callback_ui_group (timer_fn tm)) = Inr k \<longrightarrow> T \<le> timer_due tm"
    and s5: "T \<le> clock (step a w) + 2"
    by simp_all
  from Cons.IH [OF rest s1 s2 Cons.prems(4) s3 Cons.prems(6) s4 s5]
  show ?case by (simp add: run_def)
qed

text \<open>
  C8 (as stated): a description requested with a \<^verbatim>\<open>ui_group\<close> other than \<open>-1\<close>
  takes the flag from false to true, and the flag then stays true for exactly the fixed
  delay of two seconds. It does not when a function registered by an earlier request for
  the same group is still pending. Tooltips of group 0 are requested at times 0 and 1;
  the first function clears the flag at time 2. At time \<open>5 / 2\<close> the flag is false and
  a third request sets it; the function of the second request clears it at time 3,
  half a second later.
\<close>

theorem highlight_window_cut_short:
  "ui_groups rehover_world ! 0 = False \<and>
   clock rehover_world = 5 / 2 \<and>
   ui_groups (snd (the (description PDT_OT_vRotL 0 rehover_world))) ! 0 = True \<and>
   ui_groups (advance 3 (snd (the (description PDT_OT_vRotL 0 rehover_world)))) ! 0 = False \<and>
   (3::real) < 5 / 2 + 2.0"
  by (simp add: rehover_world_def advance_def description_body_def highlight_def
        py_setitem_def py_index_def set_false_def redraw_def timers_register_def
        sample_world_def Let_def)

text \<open>
  C8 (amended): let a description be requested with a \<^verbatim>\<open>ui_group\<close> other than
  \<open>-1\<close> that selects a flag of the list, while that flag is false and no function
  that clears it is pending. Then the flag is true at once, with one redraw, and one
  function is registered, due two seconds later. Whatever is requested and however
  time passes before that moment, the flag is true. Once that moment has come the flag
  is false: the function is among those called, each of which has redrawn once, and it
  is no longer pending.
\<close>

theorem highlight_window:
  assumes "bl_description op = Some d"
    and "g \<noteq> -1"
    and "py_index (length (ui_groups w)) g = Inr k"
    and "ui_groups w ! k = False"
    and "\<not> pending_clear w k"
    and "waits_before (clock w + 2.0) acts"
  shows "\<exists>w1. description op g w = Some (Inr d, w1) \<and>
           ui_groups w1 ! k = True \<and>
           events w1 = events w @ [Tag_redraw] \<and>
           timers w1 = timers w @ [\<lparr>timer_fn = Set_false g, timer_due = clock w + 2.0\<rparr>] \<and>
           ui_groups (run acts w1) ! k = True \<and>
           (\<forall>t. clock w + 2.0 \<le> t \<longrightarrow>
                ui_groups (advance t (run acts w1)) ! k = False \<and>
                \<lparr>timer_fn = Set_false g, timer_due = clock w + 2.0\<rparr>
                   \<in> set (firing t (run acts w1)) \<and>
                events (advance t (run acts w1)) =
                  events (run acts w1) @ replicate (length (firing t (run acts w1))) Tag_redraw \<and>
                \<lparr>timer_fn = Set_false g, timer_due = clock w + 2.0\<rparr>
                   \<notin> set (timers (advance t (run acts w1))))"
proof -
  let ?new = "\<lparr>timer_fn = Set_false g, timer_due = clock w + 2\<rparr>"
  let ?w1 = "w\<lparr>ui_groups := (ui_groups w)[k := True], events := events w @ [Tag_redraw],
      timers := timers w @ [?new]\<rparr>"
  let ?n = "length (ui_groups w)"
  let ?W = "run acts ?w1"
  from assms(3) have kl: "k < ?n" by (rule py_index_bound)
  have d: "description op g w = Some (Inr d, ?w1)"
    using assms(1,2) highlight_valid [OF assms(3)]
    by (simp add: description_hook description_body_def)
  have f1: "ui_groups ?w1 ! k = True" using kl by simp
  have later: "\<forall>tm \<in> set (timers ?w1).
      py_index ?n (callback_ui_group (timer_fn tm)) = Inr k \<longrightarrow> clock w + 2 \<le> timer_due tm"
    using assms(5) by (auto simp: pending_clear_def list_ex_iff)
  from assms(6) have wb: "waits_before (clock w + 2) acts" by simp
  have inv: "length (ui_groups ?W) = ?n \<and> ui_groups ?W ! k = True \<and> ?new \<in> set (timers ?W)"
    by (rule run_keeps_window [OF wb _ f1 kl _ _ later]) simp_all
  then have lenW: "length (ui_groups ?W) = ?n" and flagW: "ui_groups ?W ! k = True"
    and newW: "?new \<in> set (timers ?W)" by simp_all
  from assms(3) lenW
  have idx: "py_index (length (ui_groups ?W)) (callback_ui_group (timer_fn ?new)) = Inr k"
    by simp
  have after: "\<forall>t. clock w + 2.0 \<le> t \<longrightarrow>
      ui_groups (advance t ?W) ! k = False \<and>
      ?new \<in> set (firing t ?W) \<and>
      events (advance t ?W) = events ?W @ replicate (length (firing t ?W)) Tag_redraw \<and>
      ?new \<notin> set (timers (advance t ?W))"
  proof (intro allI impI conjI)
    fix t :: real
    assume "clock w + 2.0 \<le> t"
    then have t: "timer_due ?new \<le> t" by simp
    show "ui_groups (advance t ?W) ! k = False" by (rule advance_clears [OF newW t idx])
    show "?new \<in> set (firing t ?W)" using newW t idx by (simp add: firing_def)
    show "events (advance t ?W) = events ?W @ replicate (length (firing t ?W)) Tag_redraw"
      by (rule advance_events)
    show "?new \<notin> set (timers (advance t ?W))" using t by (simp add: advance_timers)
  qed
  from d f1 flagW after show ?thesis by simp
qed

theorem highlight_window_witness:
  "bl_description PDT_OT_vRotL = Some ''View Orbit Left by Delta Value'' \<and>
   py_index (length (ui_groups sample_world)) 0 = Inr 0 \<and>
   ui_groups sample_world ! 0 = False \<and>
   \<not> pending_clear sample_world 0 \<and>
   waits_before (clock sample_world + 2.0) [Wait 1, Request PDT_OT_vRotR 0, Wait (3 / 2)] \<and>
   ui_groups (snd (the (description PDT_OT_vRotL 0 sample_world))) ! 0 = True \<and>
   ui_groups (run [Wait 1, Request PDT_OT_vRotR 0, Wait (3 / 2)]
      (snd (the (description PDT_OT_vRotL 0 sample_world)))) ! 0 = True \<and>
   ui_groups (advance 2 (run [Wait 1, Request PDT_OT_vRotR 0, Wait (3 / 2)]
      (snd (the (description PDT_OT_vRotL 0 sample_world))))) ! 0 = False"
proof -
  have h1: "bl_description PDT_OT_vRotL = Some ''View Orbit Left by Delta Value''" by simp
  have h2: "(0::int) \<noteq> -1" by simp
  have h3: "py_index (length (ui_groups sample_world)) 0 = Inr 0"
    by (simp add: py_index_def sample_world_def)
  have h4: "ui_groups sample_world ! 0 = False" by (simp add: sample_world_def)
  have h5: "\<not> pending_clear sample_world 0" by (simp add: pending_clear_def sample_world_def)
  have c: "clock sample_world = 0" by (simp add: sample_world_def)
  have h6: "waits_before (clock sample_world + 2.0)
      [Wait 1, Request PDT_OT_vRotR 0, Wait (3 / 2)]" by (simp add: c)
  from highlight_window [OF h1 h2 h3 h4 h5 h6]
  obtain w1 where d: "description PDT_OT_vRotL 0 sample_world
        = Some (Inr ''View Orbit Left by Delta Value'', w1)"
    and f: "ui_groups w1 ! 0 = True"
    and b: "ui_groups (run [Wait 1, Request PDT_OT_vRotR 0, Wait (3 / 2)] w1) ! 0 = True"
    and a: "\<forall>t. clock sample_world + 2.0 \<le> t \<longrightarrow>
        ui_groups (advance t (run [Wait 1, Request PDT_OT_vRotR 0, Wait (3 / 2)] w1)) ! 0 = False \<and>
        \<lparr>timer_fn = Set_false 0, timer_due = clock sample_world + 2.0\<rparr>
           \<in> set (firing t (run [Wait 1, Request PDT_OT_vRotR 0, Wait (3 / 2)] w1)) \<and>
        events (advance t (run [Wait 1, Request PDT_OT_vRotR 0, Wait (3 / 2)] w1)) =
          events (run [Wait 1, Request PDT_OT_vRotR 0, Wait (3 / 2)] w1) @
          replicate (length (firing t (run [Wait 1, Request PDT_OT_vRotR 0, Wait (3 / 2)] w1)))
            Tag_redraw \<and>
        \<lparr>timer_fn = Set_false 0, timer_due = clock sample_world + 2.0\<rparr>
           \<notin> set (timers (advance t (run [Wait 1, Request PDT_OT_vRotR 0, Wait (3 / 2)] w1)))"
    by blast
  from a c have "ui_groups (advance 2
      (run [Wait 1, Request PDT_OT_vRotR 0, Wait (3 / 2)] w1)) ! 0 = False" by simp
  with h1 h3 h4 h5 h6 d f b show ?thesis by simp
qed

text \<open>
  C10 (as stated): of the values of \<^verbatim>\<open>ui_group\<close>, only \<open>-1\<close> is guarded; a
  negative value other than \<open>-1\<close> sets the flag of a group counted from the end of
  the list, and a value at or beyond the length of the list raises. A negative value
  below minus the length raises as well: \<open>-3\<close> on a list of two flags.
\<close>

theorem negative_index_raises:
  "length (ui_groups sample_world) = 2 \<and>
   description PDT_OT_vRotL (-3) sample_world = Some (Inl IndexError, sample_world)"
  by (simp add: description_body_def highlight_def py_setitem_def py_index_def
        sample_world_def)

text \<open>
  C10 (amended): the description hooks guard \<^verbatim>\<open>ui_group\<close> against \<open>-1\<close> only,
  where nothing happens, and the list of flags is indexed with every other value. A
  negative value from minus the
  length of the list up to \<open>-2\<close> sets the flag counted from the end of the list; a
  value at or beyond the length, or below minus the length, raises
  \<^verbatim>\<open>IndexError\<close> and changes nothing; a value from \<open>0\<close> below the length sets the
  flag at that position.
\<close>

theorem highlight_index_unchecked:
  assumes "bl_description op = Some d"
  shows "(g = -1 \<longrightarrow> description op g w = Some (Inr d, w)) \<and>
         (- int (length (ui_groups w)) \<le> g \<and> g < -1 \<longrightarrow>
            description op g w =
              Some (Inr d, w\<lparr>ui_groups := (ui_groups w)[nat (int (length (ui_groups w)) + g) := True],
                            events := events w @ [Tag_redraw],
                            timers := timers w @
                              [\<lparr>timer_fn = Set_false g, timer_due = clock w + 2.0\<rparr>]\<rparr>)) \<and>
         (g \<noteq> -1 \<and> (int (length (ui_groups w)) \<le> g \<or> g < - int (length (ui_groups w))) \<longrightarrow>
            description op g w = Some (Inl IndexError, w)) \<and>
         (0 \<le> g \<and> g < int (length (ui_groups w)) \<longrightarrow>
            description op g w =
              Some (Inr d, w\<lparr>ui_groups := (ui_groups w)[nat g := True],
                            events := events w @ [Tag_redraw],
                            timers := timers w @
                              [\<lparr>timer_fn = Set_false g, timer_due = clock w + 2.0\<rparr>]\<rparr>))"
proof (intro conjI impI)
  assume "g = -1"
  with assms show "description op g w = Some (Inr d, w)"
    by (simp add: description_hook description_body_def)
next
  assume r: "- int (length (ui_groups w)) \<le> g \<and> g < -1"
  then have "py_index (length (ui_groups w)) g = Inr (nat (int (length (ui_groups w)) + g))"
    by (simp add: py_index_cases)
  from highlight_valid [OF this] assms r
  show "description op g w =
      Some (Inr d, w\<lparr>ui_groups := (ui_groups w)[nat (int (length (ui_groups w)) + g) := True],
                    events := events w @ [Tag_redraw],
                    timers := timers w @
                      [\<lparr>timer_fn = Set_false g, timer_due = clock w + 2.0\<rparr>]\<rparr>)"
    by (simp add: description_hook description_body_def)
next
  assume r: "g \<noteq> -1 \<and> (int (length (ui_groups w)) \<le> g \<or> g < - int (length (ui_groups w)))"
  then have "py_index (length (ui_groups w)) g = Inl IndexError"
    by (auto simp: py_index_cases)
  from highlight_invalid [OF this] assms r
  show "description op g w = Some (Inl IndexError, w)"
    by (simp add: description_hook description_body_def)
next
  assume r: "0 \<le> g \<and> g < int (length (ui_groups w))"
  then have "py_index (length (ui_groups w)) g = Inr (nat g)"
    by (simp add: py_index_def)
  from highlight_valid [OF this] assms r
  show "description op g w =
      Some (Inr d, w\<lparr>ui_groups := (ui_groups w)[nat g := True],
                    events := events w @ [Tag_redraw],
                    timers := timers w @
                      [\<lparr>timer_fn = Set_false g, timer_due = clock w + 2.0\<rparr>]\<rparr>)"
    by (simp add: description_hook description_body_def)
qed

theorem highlight_index_unchecked_witness:
  "bl_description PDT_OT_vRoll = Some ''View Roll by Delta Value'' \<and>
   description PDT_OT_vRoll (-2) sample_world =
     Some (Inr ''View Roll by Delta Value'',
           sample_world\<lparr>ui_groups := [True, False], events := [Tag_redraw],
                        timers := [\<lparr>timer_fn = Set_false (-2), timer_due = 2\<rparr>]\<rparr>) \<and>
   description PDT_OT_vRoll 2 sample_world = Some (Inl IndexError, sample_world) \<and>
   description PDT_OT_vRoll (-1) sample_world = Some (Inr ''View Roll by Delta Value'', sample_world) \<and>
   description PDT_OT_vRoll 1 sample_world =
     Some (Inr ''View Roll by Delta Value'',
           sample_world\<lparr>ui_groups := [False, True], events := [Tag_redraw],
                        timers := [\<lparr>timer_fn = Set_false 1, timer_due = 2\<rparr>]\<rparr>)"
proof -
  have h: "bl_description PDT_OT_vRoll = Some ''View Roll by Delta Value''" by simp
  have s: "ui_groups sample_world = [False, False]" "events sample_world = []"
    "timers sample_world = []" "clock sample_world = 0"
    by (simp_all add: sample_world_def)
  show ?thesis
    using h highlight_index_unchecked [OF h, of "-2" sample_world]
      highlight_index_unchecked [OF h, of 2 sample_world]
      highlight_index_unchecked [OF h, of 1 sample_world]
      highlight_index_unchecked [OF h, of "-1" sample_world]
    by (simp add: s)
qed

end
